theory Spec2Isabelle
  imports Complex_Main "HOL-Library.Word"
begin

section \<open>Go values\<close>

text \<open>
  A Go \<open>string\<close> is a sequence of bytes, here a \<open>string\<close> (a list of 8-bit characters);
  text outside ASCII is its UTF-8 bytes. A Go \<open>error\<close> is its message. A function that
  returns \<open>(T, error)\<close> returns \<open>error + T\<close> here, \<open>Inl\<close> when the error is not nil.
\<close>

type_synonym error = string

definition LF :: char where
  "LF = CHR 0x0A"

subsection \<open>strings.Split on a one-byte separator\<close>

text \<open>
  \<open>strings.Split(s, sep)\<close> returns the substrings between the separators; a string
  with no separator, also the empty one, gives one substring.
\<close>

fun Split :: "string \<Rightarrow> char \<Rightarrow> string list" where
  "Split [] sep = [[]]"
| "Split (c # cs) sep =
     (if c = sep then [] # Split cs sep
      else (case Split cs sep of [] \<Rightarrow> [[c]] | l # ls \<Rightarrow> (c # l) # ls))"

subsection \<open>strings.TrimSpace\<close>

text \<open>
  \<open>strings.TrimSpace\<close> removes the leading and the trailing white space, as
  \<open>unicode.IsSpace\<close> defines it: the ASCII bytes tab, line feed, vertical tab, form feed,
  carriage return and space, and the code points U+0085, U+00A0, U+1680, U+2000 to U+200A,
  U+2028, U+2029, U+202F, U+205F and U+3000, which a Go string holds as their UTF-8 bytes.
\<close>

definition white_space :: "string list" where
  "white_space =
     [[CHR 0x09], [CHR 0x0A], [CHR 0x0B], [CHR 0x0C], [CHR 0x0D], [CHR 0x20],
      [CHR 0xC2, CHR 0x85], [CHR 0xC2, CHR 0xA0],
      [CHR 0xE1, CHR 0x9A, CHR 0x80],
      [CHR 0xE2, CHR 0x80, CHR 0x80], [CHR 0xE2, CHR 0x80, CHR 0x81],
      [CHR 0xE2, CHR 0x80, CHR 0x82], [CHR 0xE2, CHR 0x80, CHR 0x83],
      [CHR 0xE2, CHR 0x80, CHR 0x84], [CHR 0xE2, CHR 0x80, CHR 0x85],
      [CHR 0xE2, CHR 0x80, CHR 0x86], [CHR 0xE2, CHR 0x80, CHR 0x87],
      [CHR 0xE2, CHR 0x80, CHR 0x88], [CHR 0xE2, CHR 0x80, CHR 0x89],
      [CHR 0xE2, CHR 0x80, CHR 0x8A],
      [CHR 0xE2, CHR 0x80, CHR 0xA8], [CHR 0xE2, CHR 0x80, CHR 0xA9],
      [CHR 0xE2, CHR 0x80, CHR 0xAF],
      [CHR 0xE2, CHR 0x81, CHR 0x9F],
      [CHR 0xE3, CHR 0x80, CHR 0x80]]"

text \<open>The encoding among \<open>encs\<close> that the string starts with, if any.\<close>

definition leading :: "string list \<Rightarrow> string \<Rightarrow> string option" where
  "leading encs s = find (\<lambda>e. e \<noteq> [] \<and> take (length e) s = e) encs"

function strip :: "string list \<Rightarrow> string \<Rightarrow> string" where
  "strip encs s =
     (case leading encs s of None \<Rightarrow> s | Some e \<Rightarrow> strip encs (drop (length e) s))"
  by pat_completeness auto
termination
proof (relation "measure (\<lambda>(encs, s). length s)")
  show "wf (measure (\<lambda>(encs, s). length s))" by simp
next
  fix encs :: "string list" and s e :: string
  assume "leading encs s = Some e"
  then have e: "e \<noteq> []" "take (length e) s = e"
    unfolding leading_def by (auto simp: find_Some_iff)
  have "length (take (length e) s) = length e"
    using e(2) by simp
  then have "length e \<le> length s"
    by simp
  moreover have "0 < length e"
    using e(1) by simp
  ultimately have "length s - length e < length s"
    by arith
  then show "((encs, drop (length e) s), (encs, s)) \<in> measure (\<lambda>(encs, s). length s)"
    by simp
qed

declare strip.simps [simp del]

definition TrimLeftSpace :: "string \<Rightarrow> string" where
  "TrimLeftSpace s = strip white_space s"

definition TrimRightSpace :: "string \<Rightarrow> string" where
  "TrimRightSpace s = rev (strip (map rev white_space) (rev s))"

definition TrimSpace :: "string \<Rightarrow> string" where
  "TrimSpace s = TrimRightSpace (TrimLeftSpace s)"

section \<open>The exclusion list\<close>

text \<open>
  The file system is a map from paths to contents; \<open>os.ReadFile\<close> fails on a path that
  is not in it (a file the process cannot read is a file that is not there).
\<close>

type_synonym fs = "string \<rightharpoonup> string"

definition ReadFile :: "fs \<Rightarrow> string \<Rightarrow> error + string" where
  "ReadFile fs path =
     (case fs path of
        None \<Rightarrow> Inl (''open '' @ path @ '': no such file or directory'')
      | Some data \<Rightarrow> Inr data)"

text \<open>
  A Go \<open>map[string]bool\<close>; indexing a key that is not there gives \<open>false\<close>.
\<close>

type_synonym bool_map = "string \<rightharpoonup> bool"

definition index :: "bool_map \<Rightarrow> string \<Rightarrow> bool" where
  "index m k = (case m k of None \<Rightarrow> False | Some b \<Rightarrow> b)"

text \<open>The body of the loop of \<open>loadExcludedNumbers\<close>, for one line.\<close>

definition add_line :: "string \<Rightarrow> bool_map \<Rightarrow> bool_map" where
  "add_line line excluded =
     (let line = TrimSpace line
      in if line \<noteq> [] then excluded(line \<mapsto> True) else excluded)"

text \<open>
  \<open>loadExcludedNumbers\<close> (src/whatsapp_handler.go, and the same text in the second part
  of src/groq_transcriber.go). The warning it prints when the file cannot be read is not
  modelled.
\<close>

definition loadExcludedNumbers :: "fs \<Rightarrow> string \<Rightarrow> bool_map" where
  "loadExcludedNumbers fs filePath =
     (case ReadFile fs filePath of
        Inl err \<Rightarrow> Map.empty
      | Inr data \<Rightarrow> fold add_line (Split data LF) Map.empty)"

section \<open>The outside of the process\<close>

text \<open>
  The value an \<open>interface{}\<close> holds after \<open>encoding/json\<close> has decoded into it. A
  \<open>map[string]interface{}\<close> is a map from keys to such values.
\<close>

datatype json =
    JNull
  | JBool bool
  | JNumber rat
  | JString string
  | JArray "json list"
  | JObject "string \<Rightarrow> json option"

text \<open>A multipart form, part by part, in the order the parts were written.\<close>

datatype part =
    FormFile string string string
  | FormField string string

datatype body =
    Multipart "part list"
  | Payload "string \<Rightarrow> json option"

text \<open>An \<open>http.Request\<close> with the timeout of the client that sends it, in seconds.\<close>

record request =
  Method :: string
  Url :: string
  Header :: "(string \<times> string) list"
  ReqBody :: body
  Timeout :: nat

text \<open>An \<open>http.Response\<close>: the status and the bytes its body delivers.\<close>

record response =
  StatusCode :: nat
  Body :: string

text \<open>
  The audio message of an event and the event itself, with the fields the handlers read.
  \<open>IsGroup\<close> is \<open>evt.Info.IsGroup\<close>, which the second part of src/groq_transcriber.go
  writes \<open>evt.Info.Chat.is.group\<close>. A nil pointer is \<open>None\<close>.
\<close>

record audio_message =
  URL :: string
  FileLength :: "64 word"
  MediaKey :: string
  DirectPath :: string

record message =
  AudioMessage :: "audio_message option"

record event =
  ID :: string
  IsGroup :: bool
  Sender_User :: string
  Chat_ID :: string
  MediaType :: string
  Message :: "message option"

text \<open>The getter \<open>evt.Message.GetAudioMessage()\<close>, which accepts a nil receiver.\<close>

definition GetAudioMessage :: "event \<Rightarrow> audio_message option" where
  "GetAudioMessage evt =
     (case Message evt of None \<Rightarrow> None | Some m \<Rightarrow> AudioMessage m)"

text \<open>
  What \<open>client.DownloadToFile\<close> returns in src/whatsapp_handler.go. That file compares
  the value with nil, copies from it as a reader and hands it to \<open>TranscribeAudioGroq\<close>
  as the path of the audio: the bytes it delivers with the error that ends them, if any,
  and the path it stands for.
\<close>

record downloaded =
  reader :: "string \<times> error option"
  as_path :: string

text \<open>
  The answers of everything outside the process: the environment after
  \<open>godotenv.Load\<close>, the operating system, the network, the JSON decoder and the
  transport. \<open>sys_Get\<close> gives the bytes the body of the response delivers and the error
  that ends them, if any. \<open>sys_CreateTemp\<close> gives the name of the file created.
  \<open>sys_data\<close> is the variable \<open>data\<close> of \<open>handleMessage\<close> in
  src/whatsapp_handler.go, which that file does not declare. \<open>sys_DecodeResponse\<close> is
  \<open>Decode\<close> into the struct with the one field \<open>Text\<close>, \<open>sys_DecodeMap\<close> is
  \<open>Decode\<close> into a \<open>map[string]interface{}\<close>.
\<close>

record sys =
  sys_Getenv :: "string \<Rightarrow> string"
  sys_Load :: "error option"
  sys_MkdirAll :: "string \<Rightarrow> error option"
  sys_WriteFile :: "string \<Rightarrow> error option"
  sys_data :: string
  sys_CreateTemp :: "string \<Rightarrow> string \<Rightarrow> error + string"
  sys_Get :: "string \<Rightarrow> error + string \<times> error option"
  sys_DownloadToFile :: "audio_message option \<Rightarrow> downloaded option"
  sys_Boundary :: string
  sys_NewRequest :: "string \<Rightarrow> string \<Rightarrow> error option"
  sys_Do :: "request \<Rightarrow> error + response"
  sys_DecodeResponse :: "string \<Rightarrow> error + string"
  sys_DecodeMap :: "string \<Rightarrow> error + (string \<Rightarrow> json option)"
  sys_SendMessage :: "string \<Rightarrow> string \<Rightarrow> error option"
  sys_sqlstore_New :: "error option"
  sys_GetFirstDevice :: "error option"
  sys_Connect :: "error option"

text \<open>
  What the process does to the outside, in order. A log line is its format string;
  the arguments are not rendered.
\<close>

datatype action =
    Log string
  | HttpGet string
  | Download "audio_message option"
  | HttpDo request
  | Send string string

text \<open>
  The state: the global \<open>EXCLUDED_NUMBERS\<close>, the file system and the actions so far.
\<close>

record world =
  EXCLUDED_NUMBERS :: bool_map
  files :: fs
  trace :: "action list"

definition emit :: "action \<Rightarrow> world \<Rightarrow> world" where
  "emit a w = w\<lparr>trace := trace w @ [a]\<rparr>"

definition store :: "string \<Rightarrow> string \<Rightarrow> world \<Rightarrow> world" where
  "store path data w = w\<lparr>files := (files w)(path \<mapsto> data)\<rparr>"

text \<open>\<open>os.Remove\<close> fails on a path that is not there and removes any other.\<close>

definition Remove :: "string \<Rightarrow> world \<Rightarrow> error option \<times> world" where
  "Remove path w =
     (case files w path of
        None \<Rightarrow> (Some (''remove '' @ path @ '': no such file or directory''), w)
      | Some data \<Rightarrow> (None, w\<lparr>files := (files w)(path := None)\<rparr>))"

section \<open>Library functions\<close>

text \<open>\<open>filepath.Base\<close>, with \<open>/\<close> as the separator.\<close>

definition Base :: "string \<Rightarrow> string" where
  "Base path =
     (if path = [] then ''.''
      else
        let path = rev (dropWhile (\<lambda>c. c = CHR ''/'') (rev path));
            path = rev (takeWhile (\<lambda>c. c \<noteq> CHR ''/'') (rev path))
        in if path = [] then ''/'' else path)"

text \<open>The verb \<open>%d\<close> of \<open>fmt\<close> on an unsigned integer.\<close>

definition digit :: "nat \<Rightarrow> char" where
  "digit d = char_of (of_char (CHR ''0'') + d)"

function Itoa :: "nat \<Rightarrow> string" where
  "Itoa n = (if n < 10 then [digit n] else Itoa (n div 10) @ [digit (n mod 10)])"
  by pat_completeness auto
termination
  by (relation "measure (\<lambda>n. n)") auto

declare Itoa.simps [simp del]

text \<open>\<open>base64.StdEncoding.EncodeToString\<close>.\<close>

definition encodeStd :: string where
  "encodeStd = ''ABCDEFGHIJKLMNOPQRSTUVWXYZabcdefghijklmnopqrstuvwxyz0123456789+/''"

definition sextet :: "nat \<Rightarrow> char" where
  "sextet n = encodeStd ! (n mod 64)"

fun EncodeToString :: "string \<Rightarrow> string" where
  "EncodeToString [] = []"
| "EncodeToString [a] =
     (let n = of_char a * 65536
      in [sextet (n div 262144), sextet (n div 4096), CHR ''='', CHR ''=''])"
| "EncodeToString [a, b] =
     (let n = of_char a * 65536 + of_char b * 256
      in [sextet (n div 262144), sextet (n div 4096), sextet (n div 64), CHR ''=''])"
| "EncodeToString (a # b # c # rest) =
     (let n = of_char a * 65536 + of_char b * 256 + of_char c
      in [sextet (n div 262144), sextet (n div 4096), sextet (n div 64), sextet n]
         @ EncodeToString rest)"

text \<open>
  \<open>filepath.Clean\<close>, \<open>filepath.Join\<close> of two non-empty elements and
  \<open>filepath.Dir\<close>, with \<open>/\<close> as the separator.
\<close>

fun join :: "string list \<Rightarrow> string" where
  "join [] = []"
| "join [e] = e"
| "join (e # es) = e @ ''/'' @ join es"

definition clean_step :: "bool \<Rightarrow> string \<Rightarrow> string list \<Rightarrow> string list" where
  "clean_step rooted e out =
     (if e = ''..'' then
        (if out \<noteq> [] \<and> last out \<noteq> ''..'' then butlast out
         else if rooted then out
         else out @ [e])
      else out @ [e])"

definition Clean :: "string \<Rightarrow> string" where
  "Clean path =
     (if path = [] then ''.''
      else
        let rooted = (take 1 path = ''/'');
            elems = filter (\<lambda>e. e \<noteq> [] \<and> e \<noteq> ''.'') (Split path (CHR ''/''));
            out = fold (clean_step rooted) elems [];
            res = (if rooted then ''/'' else []) @ join out
        in if res = [] then ''.'' else res)"

definition Join :: "string \<Rightarrow> string \<Rightarrow> string" where
  "Join a b = Clean (a @ ''/'' @ b)"

definition Dir :: "string \<Rightarrow> string" where
  "Dir path = Clean (rev (dropWhile (\<lambda>c. c \<noteq> CHR ''/'') (rev path)))"

section \<open>Backend B: src/groq_transcriber.go\<close>

text \<open>
  The form that \<open>TranscribeAudioGroq\<close> writes: the file, then the fields. Writing it
  into a buffer does not fail.
\<close>

definition groq_form :: "string \<Rightarrow> string \<Rightarrow> string \<Rightarrow> string \<Rightarrow> part list" where
  "groq_form audioPath fileData prompt language =
     [FormFile ''file'' (Base audioPath) fileData,
      FormField ''model'' ''whisper-large-v3'']
     @ (if prompt \<noteq> [] then [FormField ''prompt'' prompt] else [])
     @ (if language \<noteq> [] then [FormField ''language'' language] else [])
     @ [FormField ''response_format'' ''json'',
        FormField ''temperature'' ''0.0'']"

text \<open>
  The request: building it from the two literals does not fail. The client that
  sends it has a timeout of 60 seconds.
\<close>

definition groq_request :: "sys \<Rightarrow> string \<Rightarrow> part list \<Rightarrow> request" where
  "groq_request sys apiKey form =
     \<lparr>Method = ''POST'',
      Url = ''https://api.groq.com/v1/audio/transcriptions'',
      Header =
        [(''Authorization'', ''Bearer '' @ apiKey),
         (''Content-Type'', ''multipart/form-data; boundary='' @ sys_Boundary sys)],
      ReqBody = Multipart form,
      Timeout = 60\<rparr>"

text \<open>\<open>TranscribeAudioGroq\<close>. The request is recorded when \<open>client.Do\<close> sends it.\<close>

definition TranscribeAudioGroq ::
  "sys \<Rightarrow> string \<Rightarrow> string \<Rightarrow> string \<Rightarrow> world \<Rightarrow> (error + string) \<times> world" where
  "TranscribeAudioGroq sys audioPath prompt language w =
     (let apiKey = sys_Getenv sys ''GROQ_API_KEY''
      in if apiKey = [] then (Inl ''GROQ_API_KEY not set in environment'', w)
      else
        case ReadFile (files w) audioPath of
          Inl err \<Rightarrow> (Inl (''audio file not found: '' @ err), w)
        | Inr fileData \<Rightarrow>
            let req = groq_request sys apiKey (groq_form audioPath fileData prompt language);
                w = emit (HttpDo req) w
            in case sys_Do sys req of
                 Inl err \<Rightarrow> (Inl err, w)
               | Inr resp \<Rightarrow>
                   if StatusCode resp \<noteq> 200
                   then (Inl (''transcription failed: '' @ Body resp), w)
                   else
                     (case sys_DecodeResponse sys (Body resp) of
                        Inl err \<Rightarrow> (Inl err, w)
                      | Inr text \<Rightarrow> (Inr text, w)))"

section \<open>Backend A: src/unnamed/part_000\<close>

record CFTranscriber =
  AccountID :: string
  APIToken :: string
  Model :: string
  Language :: string
  BaseURL :: string

definition NewCFTranscriber :: "string \<Rightarrow> string \<Rightarrow> string \<Rightarrow> string \<Rightarrow> CFTranscriber" where
  "NewCFTranscriber accountID apiToken model language =
     (let model = (if model = [] then ''@cf/openai/whisper-large-v3-turbo'' else model);
          language = (if language = [] then ''en'' else language);
          baseURL =
            ''https://api.cloudflare.com/client/v4/accounts/'' @ accountID
            @ ''/ai/run/'' @ model
      in \<lparr>AccountID = accountID, APIToken = apiToken, Model = model,
          Language = language, BaseURL = baseURL\<rparr>)"

definition encodeAudioFile :: "CFTranscriber \<Rightarrow> fs \<Rightarrow> string \<Rightarrow> error + string" where
  "encodeAudioFile cf fs filePath =
     (case ReadFile fs filePath of
        Inl err \<Rightarrow> Inl err
      | Inr data \<Rightarrow> Inr (EncodeToString data))"

text \<open>
  The payload and the request of \<open>CFTranscriber.Transcribe\<close>. The client that sends
  the request has a timeout of 30 seconds.
\<close>

definition cf_payload :: "CFTranscriber \<Rightarrow> string \<Rightarrow> string \<Rightarrow> string \<Rightarrow> json option" where
  "cf_payload cf encodedAudio language =
     [''model'' \<mapsto> JString (Model cf),
      ''audio'' \<mapsto> JString encodedAudio,
      ''language'' \<mapsto> JString language,
      ''vad_filter'' \<mapsto> JString ''false'']"

definition cf_request :: "CFTranscriber \<Rightarrow> (string \<Rightarrow> json option) \<Rightarrow> request" where
  "cf_request cf payload =
     \<lparr>Method = ''POST'',
      Url = BaseURL cf,
      Header =
        [(''Authorization'', ''Bearer '' @ APIToken cf),
         (''Content-Type'', ''application/json'')],
      ReqBody = Payload payload,
      Timeout = 30\<rparr>"

text \<open>
  \<open>CFTranscriber.Transcribe\<close>. \<open>json.Marshal\<close> does not fail on a map of strings;
  \<open>http.NewRequest\<close> fails on a URL that does not parse.
\<close>

definition Transcribe ::
  "sys \<Rightarrow> CFTranscriber \<Rightarrow> string \<Rightarrow> string \<Rightarrow> world
     \<Rightarrow> (error + (string \<Rightarrow> json option)) \<times> world" where
  "Transcribe sys cf audioPath language w =
     (case encodeAudioFile cf (files w) audioPath of
        Inl err \<Rightarrow> (Inl err, w)
      | Inr encodedAudio \<Rightarrow>
          let language = (if language = [] then ''en'' else language);
              payload = cf_payload cf encodedAudio language
          in case sys_NewRequest sys ''POST'' (BaseURL cf) of
               Some err \<Rightarrow> (Inl err, w)
             | None \<Rightarrow>
                 let req = cf_request cf payload;
                     w = emit (HttpDo req) w
                 in case sys_Do sys req of
                      Inl err \<Rightarrow> (Inl err, w)
                    | Inr resp \<Rightarrow>
                        if StatusCode resp \<noteq> 200
                        then (Inl (''transcription failed: '' @ Body resp), w)
                        else
                          (case sys_DecodeMap sys (Body resp) of
                             Inl err \<Rightarrow> (Inl err, w)
                           | Inr result \<Rightarrow> (Inr result, w)))"

text \<open>The two type assertions at the end of \<open>CfTranscribe\<close>.\<close>

definition result_text :: "(string \<Rightarrow> json option) \<Rightarrow> error + string" where
  "result_text result =
     (case result ''result'' of
        Some (JObject res) \<Rightarrow>
          (case res ''text'' of
             Some (JString text) \<Rightarrow> Inr text
           | _ \<Rightarrow> Inl ''transcription text not found in response'')
      | _ \<Rightarrow> Inl ''transcription text not found in response'')"

definition CfTranscribe ::
  "sys \<Rightarrow> string \<Rightarrow> string \<Rightarrow> string \<Rightarrow> world \<Rightarrow> (error + string) \<times> world" where
  "CfTranscribe sys audioPath model language w =
     (let accountID = sys_Getenv sys ''CF_ACCOUNT_ID'';
          apiToken = sys_Getenv sys ''CF_API_KEY''
      in if accountID = [] \<or> apiToken = []
         then (Inl ''please set CF_ACCOUNT_ID and CF_API_KEY environment variables'', w)
         else
           let transcriber = NewCFTranscriber accountID apiToken model language
           in case Transcribe sys transcriber audioPath language w of
                (Inl err, w) \<Rightarrow> (Inl err, w)
              | (Inr result, w) \<Rightarrow> (result_text result, w))"

section \<open>The handlers\<close>

definition LOG_DIR :: string where
  "LOG_DIR = ''logs''"

definition MESSAGES_DIR :: string where
  "MESSAGES_DIR = ''messages''"

definition WHISPER_PROMPT :: string where
  "WHISPER_PROMPT =
     ''Transcreva com precis'' @ [CHR 0xC3, CHR 0xA3]
     @ ''o, preservando enunciados conforme falados. Corrija erros ortogr''
     @ [CHR 0xC3, CHR 0xA1] @ ''ficos comuns sem alterar a inten''
     @ [CHR 0xC3, CHR 0xA7, CHR 0xC3, CHR 0xA3] @ ''o original. Use pontua''
     @ [CHR 0xC3, CHR 0xA7, CHR 0xC3, CHR 0xA3] @ ''o e capitaliza''
     @ [CHR 0xC3, CHR 0xA7, CHR 0xC3, CHR 0xA3]
     @ ''o de forma natural para facilitar a leitura. Foda-se. Amorzinho.''"

text \<open>The reply: \<open>fmt.Sprintf\<close> of the template on the transcription.\<close>

definition replyText :: "string \<Rightarrow> string" where
  "replyText transcription =
     ''*Transcri'' @ [CHR 0xC3, CHR 0xA7, CHR 0xC3, CHR 0xA3] @ ''o autom''
     @ [CHR 0xC3, CHR 0xA1] @ ''tica:*'' @ [LF, LF] @ ''_'' @ transcription @ ''_''"

text \<open>
  The end of both versions of \<open>processAudioMessage\<close>, from the trimming of the
  transcription on.
\<close>

definition reply :: "sys \<Rightarrow> event \<Rightarrow> string \<Rightarrow> world \<Rightarrow> error option \<times> world" where
  "reply sys evt transcription w =
     (let transcription = TrimSpace transcription;
          chatID = Chat_ID evt;
          w = emit (Send chatID (replyText transcription)) w
      in case sys_SendMessage sys chatID (replyText transcription) of
           Some err \<Rightarrow> (Some err, emit (Log ''Failed to send reply message: %v'') w)
         | None \<Rightarrow> (None, emit (Log ''Reply sent successfully.'') w))"

subsection \<open>The second part of src/groq_transcriber.go\<close>

text \<open>
  \<open>processAudioMessage\<close>, which fetches the audio with \<open>http.Get\<close>. \<open>io.Copy\<close>
  writes the bytes that arrive and fails with the error that ends them.
\<close>

definition processAudioMessage_gt :: "sys \<Rightarrow> event \<Rightarrow> world \<Rightarrow> error option \<times> world" where
  "processAudioMessage_gt sys evt w =
     (case GetAudioMessage evt of
        None \<Rightarrow> (Some ''audio message details not found'', w)
      | Some audioMsg \<Rightarrow>
          let directPath = URL audioMsg;
              fileLength = FileLength audioMsg;
              w = emit (HttpGet directPath) w
          in case sys_Get sys directPath of
               Inl err \<Rightarrow> (Some err, emit (Log ''Failed to download audio: %v'') w)
             | Inr resp_Body \<Rightarrow>
                 (case sys_CreateTemp sys MESSAGES_DIR
                         (''audio-'' @ Itoa (unat fileLength) @ ''-*.webm'') of
                    Inl err \<Rightarrow> (Some err, emit (Log ''Failed to create temp file: %v'') w)
                  | Inr tempFilePath \<Rightarrow>
                      let w = store tempFilePath [] w;
                          w = store tempFilePath (fst resp_Body) w
                      in case snd resp_Body of
                           Some err \<Rightarrow>
                             (Some err, emit (Log ''Failed to save audio file: %v'') w)
                         | None \<Rightarrow>
                             let w = emit (Log ''Audio message downloaded and saved to: %s'') w
                             in case TranscribeAudioGroq sys tempFilePath WHISPER_PROMPT ''pt'' w of
                                  (Inl err, w) \<Rightarrow>
                                    (Some err, emit (Log ''Error during transcription: %v'') w)
                                | (Inr transcription, w) \<Rightarrow>
                                    let w = emit (Log ''Audio transcription completed.'') w;
                                        w = (case Remove tempFilePath w of
                                               (Some err, w) \<Rightarrow>
                                                 emit (Log ''Error removing temporary audio file: %v'') w
                                             | (None, w) \<Rightarrow>
                                                 emit (Log ''Temporary audio file removed: %s'') w)
                                    in reply sys evt transcription w))"

definition handleMessage_gt :: "sys \<Rightarrow> event \<Rightarrow> world \<Rightarrow> world" where
  "handleMessage_gt sys evt w =
     (if IsGroup evt then emit (Log ''Message is from a group, ignoring...'') w
      else
        let sender = Sender_User evt
        in if index (EXCLUDED_NUMBERS w) sender
           then emit (Log ''Sender %s is excluded. Skipping transcription.'') w
           else
             (case GetAudioMessage evt of
                Some audioMsg \<Rightarrow>
                  let w = emit (Log ''Audio message detected, processing transcription...'') w
                  in (case processAudioMessage_gt sys evt w of
                        (Some err, w) \<Rightarrow> emit (Log ''Error processing audio message: %v'') w
                      | (None, w) \<Rightarrow> w)
              | None \<Rightarrow> emit (Log ''Received non-audio message, ignoring...'') w))"

subsection \<open>src/whatsapp_handler.go\<close>

text \<open>
  \<open>processAudioMessage\<close>, which fetches the audio with \<open>client.DownloadToFile\<close>. Its
  call of \<open>fmt.Sprintf\<close> has the verb \<open>%d\<close> and no argument. The removal of the
  temporary file is commented out.
\<close>

definition processAudioMessage_wh :: "sys \<Rightarrow> event \<Rightarrow> world \<Rightarrow> error option \<times> world" where
  "processAudioMessage_wh sys evt w =
     (let w = emit (Download (GetAudioMessage evt)) w
      in case sys_DownloadToFile sys (GetAudioMessage evt) of
           None \<Rightarrow> (Some ''audio message details not found'', w)
         | Some audioMsg \<Rightarrow>
             (case sys_CreateTemp sys MESSAGES_DIR ''audio-%!d(MISSING)-*.webm'' of
                Inl err \<Rightarrow> (Some err, emit (Log ''Failed to create temp file: %v'') w)
              | Inr tempFilePath \<Rightarrow>
                  let w = store tempFilePath [] w;
                      w = store tempFilePath (fst (reader audioMsg)) w
                  in case snd (reader audioMsg) of
                       Some err \<Rightarrow> (Some err, emit (Log ''Failed to save audio file: %v'') w)
                     | None \<Rightarrow>
                         let w = emit (Log ''Audio message downloaded and saved to: %s'') w
                         in case TranscribeAudioGroq sys (as_path audioMsg) WHISPER_PROMPT ''pt'' w of
                              (Inl err, w) \<Rightarrow>
                                (Some err, emit (Log ''Error during transcription: %v'') w)
                            | (Inr transcription, w) \<Rightarrow>
                                let w = emit (Log ''Audio transcription completed.'') w
                                in reply sys evt transcription w))"

text \<open>
  How a call of \<open>handleMessage\<close> ends: it returns, or it panics on a nil pointer.
\<close>

datatype exit = Returned | Panicked

text \<open>
  The first statement of \<open>handleMessage\<close>, which saves the audio under
  \<open>downloads\<close>: \<open>Some\<close> when the function ends there, \<open>None\<close> when it goes on.
\<close>

definition save_audio :: "sys \<Rightarrow> event \<Rightarrow> world \<Rightarrow> exit option \<times> world" where
  "save_audio sys evt w =
     (if MediaType evt = ''audio'' then
        (case Message evt of
           None \<Rightarrow> (Some Panicked, w)
         | Some m \<Rightarrow>
             (case AudioMessage m of
                None \<Rightarrow> (None, w)
              | Some audioMsg \<Rightarrow>
                  let mediaKey = MediaKey audioMsg;
                      directPath = DirectPath audioMsg;
                      savePath = Join ''downloads'' (ID evt @ ''.ogg'')
                  in case sys_MkdirAll sys (Dir savePath) of
                       Some err \<Rightarrow> (Some Returned, emit (Log ''Error creating directory:'') w)
                     | None \<Rightarrow>
                         (case sys_WriteFile sys savePath of
                            Some err \<Rightarrow> (Some Returned, emit (Log ''Error saving audio file:'') w)
                          | None \<Rightarrow>
                              (None, emit (Log ''Audio message saved to:'')
                                       (store savePath (sys_data sys) w)))))
      else (None, w))"

definition handleMessage_wh :: "sys \<Rightarrow> event \<Rightarrow> world \<Rightarrow> exit \<times> world" where
  "handleMessage_wh sys evt w =
     (case save_audio sys evt w of
        (Some e, w) \<Rightarrow> (e, w)
      | (None, w) \<Rightarrow>
          if IsGroup evt then (Returned, emit (Log ''Message is from a group, ignoring...'') w)
          else
            let sender = Sender_User evt
            in if index (EXCLUDED_NUMBERS w) sender
               then (Returned, emit (Log ''Sender %s is excluded. Skipping transcription.'') w)
               else
                 (case GetAudioMessage evt of
                    Some audioMsg \<Rightarrow>
                      let w = emit (Log ''Audio message detected, processing transcription...'') w
                      in (case processAudioMessage_wh sys evt w of
                            (Some err, w) \<Rightarrow>
                              (Returned, emit (Log ''Error processing audio message: %v'') w)
                          | (None, w) \<Rightarrow> (Returned, w))
                  | None \<Rightarrow>
                      (Returned, emit (Log ''Received non-audio message, ignoring...'') w)))"

section \<open>Startup\<close>

text \<open>
  \<open>main\<close> up to the point where it waits for a signal. \<open>log.Fatalf\<close> ends the
  process: \<open>Fatal\<close> with the format string. \<open>Running\<close>: the client is connected and
  the handler is registered.
\<close>

datatype startup = Fatal string | Running

fun setupDirectories :: "sys \<Rightarrow> string list \<Rightarrow> string option" where
  "setupDirectories sys [] = None"
| "setupDirectories sys (dir # dirs) =
     (case sys_MkdirAll sys dir of
        Some err \<Rightarrow> Some ''Failed to create directory %s: %v''
      | None \<Rightarrow> setupDirectories sys dirs)"

text \<open>The part that the two versions of \<open>main\<close> share, from \<open>sqlstore.New\<close> on.\<close>

definition connect :: "sys \<Rightarrow> world \<Rightarrow> startup \<times> world" where
  "connect sys w =
     (case sys_sqlstore_New sys of
        Some err \<Rightarrow> (Fatal ''Failed to connect to database: %v'', w)
      | None \<Rightarrow>
          (case sys_GetFirstDevice sys of
             Some err \<Rightarrow> (Fatal ''Failed to get device: %v'', w)
           | None \<Rightarrow>
               (case sys_Connect sys of
                  Some err \<Rightarrow> (Fatal ''Failed to connect: %v'', w)
                | None \<Rightarrow> (Running, emit (Log ''Connected to WhatsApp'') w))))"

text \<open>\<open>main\<close> of src/whatsapp_handler.go.\<close>

definition main_wh :: "sys \<Rightarrow> world \<Rightarrow> startup \<times> world" where
  "main_wh sys w =
     (let w = (case sys_Load sys of
                 Some err \<Rightarrow>
                   emit (Log ''No .env file found, continuing with environment variables'') w
               | None \<Rightarrow> w)
      in case setupDirectories sys [LOG_DIR, MESSAGES_DIR] of
           Some msg \<Rightarrow> (Fatal msg, w)
         | None \<Rightarrow>
             let w = w\<lparr>EXCLUDED_NUMBERS := loadExcludedNumbers (files w) ''exclude.txt''\<rparr>;
                 w = emit (Log ''Loaded excluded numbers: %v'') w
             in connect sys w)"

text \<open>
  \<open>main\<close> of the second part of src/groq_transcriber.go, which also writes three
  lines through a \<open>slog\<close> logger (the fourth, at the debug level, is not written).
\<close>

definition main_gt :: "sys \<Rightarrow> world \<Rightarrow> startup \<times> world" where
  "main_gt sys w =
     (let w = (case sys_Load sys of
                 Some err \<Rightarrow>
                   emit (Log ''No .env file found, continuing with environment variables'') w
               | None \<Rightarrow> w)
      in case setupDirectories sys [LOG_DIR, MESSAGES_DIR] of
           Some msg \<Rightarrow> (Fatal msg, w)
         | None \<Rightarrow>
             let w = w\<lparr>EXCLUDED_NUMBERS := loadExcludedNumbers (files w) ''exclude.txt''\<rparr>;
                 w = emit (Log ''Loaded excluded numbers: %v'') w;
                 w = emit (Log ''Whatsmeow message: '') w;
                 w = emit (Log ''Warning message'') w;
                 w = emit (Log ''Error message'') w
             in connect sys w)"

section \<open>Reading a trace\<close>

text \<open>
  The requests sent to a transcription backend, the replies sent to a conversation, the
  URLs fetched with \<open>http.Get\<close> and the downloads through the transport, in order.
\<close>

fun posted :: "action \<Rightarrow> request list" where
  "posted (HttpDo req) = [req]"
| "posted a = []"

fun sent :: "action \<Rightarrow> (string \<times> string) list" where
  "sent (Send chatID text) = [(chatID, text)]"
| "sent a = []"

fun got :: "action \<Rightarrow> string list" where
  "got (HttpGet url) = [url]"
| "got a = []"

fun fetched :: "action \<Rightarrow> audio_message option list" where
  "fetched (Download msg) = [msg]"
| "fetched a = []"

definition backend_calls :: "action list \<Rightarrow> request list" where
  "backend_calls tr = concat (map posted tr)"

definition replies :: "action list \<Rightarrow> (string \<times> string) list" where
  "replies tr = concat (map sent tr)"

definition raw_gets :: "action list \<Rightarrow> string list" where
  "raw_gets tr = concat (map got tr)"

definition downloads :: "action list \<Rightarrow> audio_message option list" where
  "downloads tr = concat (map fetched tr)"

text \<open>The values of the fields of a form that have a given name.\<close>

fun field_value :: "string \<Rightarrow> part \<Rightarrow> string list" where
  "field_value name (FormField n v) = (if n = name then [v] else [])"
| "field_value name (FormFile n f c) = []"

definition field_values :: "string \<Rightarrow> part list \<Rightarrow> string list" where
  "field_values name parts = concat (map (field_value name) parts)"




section \<open>Sample inputs\<close>

text \<open>An exclusion file of four lines: two numbers, one of them indented, and two blank lines.\<close>

definition exclude_txt :: string where
  "exclude_txt = ''5511999'' @ [LF, LF] @ ''  5522 '' @ [CHR 0x0D, LF]"

text \<open>
  A voice message in a private chat, with the media key and the URL of its encrypted
  media, the same message in a group, and a text message.
\<close>

definition audio0 :: audio_message where
  "audio0 =
     \<lparr>URL = ''https://mmg.whatsapp.net/v/t62.7117-24/1.enc'',
      FileLength = 4,
      MediaKey = ''k3y'',
      DirectPath = ''/v/t62.7117-24/1.enc''\<rparr>"

definition evt_audio :: event where
  "evt_audio =
     \<lparr>ID = ''3EB0'',
      IsGroup = False,
      Sender_User = ''5511888'',
      Chat_ID = ''5511888@s.whatsapp.net'',
      MediaType = ''audio'',
      Message = Some \<lparr>AudioMessage = Some audio0\<rparr>\<rparr>"

definition evt_group :: event where
  "evt_group = evt_audio\<lparr>IsGroup := True\<rparr>"

definition evt_text :: event where
  "evt_text = evt_audio\<lparr>MediaType := ''text'', Message := Some \<lparr>AudioMessage = None\<rparr>\<rparr>"

text \<open>
  Responses of a backend: Backend B with a transcript, Backend A with a transcript and
  without one, and a refusal.
\<close>

definition resp_oi :: response where
  \<open>resp_oi = \<lparr>StatusCode = 200, Body = ''{"text":"  oi  "}''\<rparr>\<close>

definition resp_hello :: response where
  \<open>resp_hello = \<lparr>StatusCode = 200, Body = ''{"result":{"text":"hello"}}''\<rparr>\<close>

definition resp_empty :: response where
  \<open>resp_empty = \<lparr>StatusCode = 200, Body = ''{"result":{}}''\<rparr>\<close>

definition resp_401 :: response where
  \<open>resp_401 = \<lparr>StatusCode = 401, Body = ''{"error":"invalid api key"}''\<rparr>\<close>

text \<open>
  An outside where everything succeeds: the credentials are set, the audio arrives, and
  the backend answers every request with \<open>resp_oi\<close>.
\<close>

definition sys0 :: sys where
  "sys0 =
     \<lparr>sys_Getenv =
        (\<lambda>k. if k = ''GROQ_API_KEY'' then ''gsk''
             else if k = ''CF_ACCOUNT_ID'' then ''acc''
             else if k = ''CF_API_KEY'' then ''tok''
             else []),
      sys_Load = None,
      sys_MkdirAll = (\<lambda>dir. None),
      sys_WriteFile = (\<lambda>path. None),
      sys_data = ''OggS'',
      sys_CreateTemp = (\<lambda>dir pattern. Inr ''messages/audio-4-1.webm''),
      sys_Get = (\<lambda>url. Inr (''OggS'', None)),
      sys_DownloadToFile =
        (\<lambda>msg. Some \<lparr>reader = (''OggS'', None), as_path = ''downloads/3EB0.ogg''\<rparr>),
      sys_Boundary = ''b0'',
      sys_NewRequest = (\<lambda>method url. None),
      sys_Do = (\<lambda>req. Inr resp_oi),
      sys_DecodeResponse =
        (\<lambda>b. if b = Body resp_oi then Inr ''  oi  '' else Inl ''invalid character''),
      sys_DecodeMap =
        (\<lambda>b. if b = Body resp_hello
             then Inr [''result'' \<mapsto> JObject [''text'' \<mapsto> JString ''hello'']]
             else if b = Body resp_empty then Inr [''result'' \<mapsto> JObject Map.empty]
             else Inl ''invalid character''),
      sys_SendMessage = (\<lambda>chatID text. None),
      sys_sqlstore_New = None,
      sys_GetFirstDevice = None,
      sys_Connect = None\<rparr>"

text \<open>The same outside with no credential in the environment.\<close>

definition sys_nokey :: sys where
  "sys_nokey = sys0\<lparr>sys_Getenv := (\<lambda>k. [])\<rparr>"

text \<open>The same outside with a backend that refuses every request.\<close>

definition sys_401 :: sys where
  "sys_401 = sys0\<lparr>sys_Do := (\<lambda>req. Inr resp_401)\<rparr>"

text \<open>The same outside with Backend A answering with a transcript, and without one.\<close>

definition sys_hello :: sys where
  "sys_hello = sys0\<lparr>sys_Do := (\<lambda>req. Inr resp_hello)\<rparr>"

definition sys_empty :: sys where
  "sys_empty = sys0\<lparr>sys_Do := (\<lambda>req. Inr resp_empty)\<rparr>"

text \<open>The state at the start: nothing excluded, no file, nothing done.\<close>

definition w0 :: world where
  "w0 = \<lparr>EXCLUDED_NUMBERS = Map.empty, files = Map.empty, trace = []\<rparr>"

text \<open>A state with an audio file, and one with the file that the download stands for.\<close>

definition w1 :: world where
  "w1 = w0\<lparr>files := [''messages/a.ogg'' \<mapsto> ''OggS'']\<rparr>"

definition w2 :: world where
  "w2 = w0\<lparr>files := [''downloads/3EB0.ogg'' \<mapsto> ''OggS'']\<rparr>"

text \<open>A state where the sender of the sample events is excluded.\<close>

definition w_excl :: world where
  "w_excl = w0\<lparr>EXCLUDED_NUMBERS := [''5511888'' \<mapsto> True]\<rparr>"

section \<open>Properties\<close>

subsection \<open>The state and the trace\<close>

lemma index_add_line:
  "index (add_line l m) s = (index m s \<or> (TrimSpace l = s \<and> TrimSpace l \<noteq> []))"
  by (auto simp: add_line_def index_def Let_def)

lemma index_fold_add_line:
  "index (fold add_line ls m) s =
     (index m s \<or> (\<exists>l \<in> set ls. TrimSpace l = s \<and> TrimSpace l \<noteq> []))"
  by (induction ls arbitrary: m) (auto simp: index_add_line)

lemma index_empty: "index Map.empty s = False"
  by (simp add: index_def)

lemma emit_simps:
  "trace (emit a w) = trace w @ [a]"
  "files (emit a w) = files w"
  "EXCLUDED_NUMBERS (emit a w) = EXCLUDED_NUMBERS w"
  by (simp_all add: emit_def)

lemma store_simps:
  "trace (store p d w) = trace w"
  "files (store p d w) = (files w)(p \<mapsto> d)"
  "EXCLUDED_NUMBERS (store p d w) = EXCLUDED_NUMBERS w"
  by (simp_all add: store_def)

lemma observers_append:
  "backend_calls (tr @ tr') = backend_calls tr @ backend_calls tr'"
  "replies (tr @ tr') = replies tr @ replies tr'"
  "raw_gets (tr @ tr') = raw_gets tr @ raw_gets tr'"
  "downloads (tr @ tr') = downloads tr @ downloads tr'"
  by (simp_all add: backend_calls_def replies_def raw_gets_def downloads_def)

lemma observers_Cons:
  "backend_calls (a # tr) = posted a @ backend_calls tr"
  "replies (a # tr) = sent a @ replies tr"
  "raw_gets (a # tr) = got a @ raw_gets tr"
  "downloads (a # tr) = fetched a @ downloads tr"
  "backend_calls [] = []"
  "replies [] = []"
  "raw_gets [] = []"
  "downloads [] = []"
  by (simp_all add: backend_calls_def replies_def raw_gets_def downloads_def)

lemmas observers = observers_append observers_Cons

lemma save_audio_frame:
  "backend_calls (trace (snd (save_audio sys evt w))) = backend_calls (trace w) \<and>
   replies (trace (snd (save_audio sys evt w))) = replies (trace w) \<and>
   raw_gets (trace (snd (save_audio sys evt w))) = raw_gets (trace w) \<and>
   downloads (trace (snd (save_audio sys evt w))) = downloads (trace w) \<and>
   EXCLUDED_NUMBERS (snd (save_audio sys evt w)) = EXCLUDED_NUMBERS w"
  by (simp add: save_audio_def Let_def emit_simps store_simps observers
      split: option.splits)

lemma TranscribeAudioGroq_frame:
  "files (snd (TranscribeAudioGroq sys p pr l w)) = files w"
  "EXCLUDED_NUMBERS (snd (TranscribeAudioGroq sys p pr l w)) = EXCLUDED_NUMBERS w"
  "replies (trace (snd (TranscribeAudioGroq sys p pr l w))) = replies (trace w)"
  "raw_gets (trace (snd (TranscribeAudioGroq sys p pr l w))) = raw_gets (trace w)"
  "downloads (trace (snd (TranscribeAudioGroq sys p pr l w))) = downloads (trace w)"
  by (simp_all add: TranscribeAudioGroq_def Let_def emit_simps observers
      split: sum.splits)

lemma reply_frame:
  "files (snd (reply sys evt t w)) = files w"
  "EXCLUDED_NUMBERS (snd (reply sys evt t w)) = EXCLUDED_NUMBERS w"
  "replies (trace (snd (reply sys evt t w))) =
     replies (trace w) @ [(Chat_ID evt, replyText (TrimSpace t))]"
  "raw_gets (trace (snd (reply sys evt t w))) = raw_gets (trace w)"
  "downloads (trace (snd (reply sys evt t w))) = downloads (trace w)"
  "backend_calls (trace (snd (reply sys evt t w))) = backend_calls (trace w)"
  by (simp_all add: reply_def Let_def emit_simps observers split: option.splits)

lemma Remove_frame:
  "trace (snd (Remove p w)) = trace w"
  "EXCLUDED_NUMBERS (snd (Remove p w)) = EXCLUDED_NUMBERS w"
  "files (snd (Remove p w)) = (files w)(p := None)"
  by (auto simp: Remove_def split: option.splits)

lemmas frames = emit_simps store_simps observers TranscribeAudioGroq_frame reply_frame
  Remove_frame

lemmas samples = audio0_def evt_audio_def evt_group_def evt_text_def resp_oi_def resp_hello_def
  resp_empty_def resp_401_def sys0_def sys_nokey_def sys_401_def sys_hello_def sys_empty_def
  w0_def w1_def w2_def w_excl_def

lemmas run = handleMessage_gt_def handleMessage_wh_def save_audio_def processAudioMessage_gt_def
  processAudioMessage_wh_def TranscribeAudioGroq_def reply_def Remove_def ReadFile_def
  GetAudioMessage_def index_def Let_def emit_def store_def

subsection \<open>The request of a call and its answer\<close>

lemma TranscribeAudioGroq_sent:
  assumes "trace (snd (TranscribeAudioGroq sys p pr l w)) = trace w @ [HttpDo req]"
    and "sys_Do sys req = Inr resp"
  shows "fst (TranscribeAudioGroq sys p pr l w) =
           (if StatusCode resp \<noteq> 200 then Inl (''transcription failed: '' @ Body resp)
            else sys_DecodeResponse sys (Body resp))"
  using assms
  by (auto simp: TranscribeAudioGroq_def Let_def emit_simps split: if_splits sum.splits)

lemma Transcribe_sent:
  assumes "trace (snd (Transcribe sys cf p l w)) = trace w @ [HttpDo req]"
    and "sys_Do sys req = Inr resp"
  shows "fst (Transcribe sys cf p l w) =
           (if StatusCode resp \<noteq> 200 then Inl (''transcription failed: '' @ Body resp)
            else sys_DecodeMap sys (Body resp))"
  using assms
  by (auto simp: Transcribe_def Let_def emit_simps split: if_splits sum.splits option.splits)

lemma CfTranscribe_Transcribe:
  assumes "trace (snd (CfTranscribe sys p m l w)) = trace w @ [HttpDo req]"
  shows "trace (snd (Transcribe sys
            (NewCFTranscriber (sys_Getenv sys ''CF_ACCOUNT_ID'') (sys_Getenv sys ''CF_API_KEY'') m l)
            p l w)) = trace w @ [HttpDo req] \<and>
         fst (CfTranscribe sys p m l w) =
           (case fst (Transcribe sys
              (NewCFTranscriber (sys_Getenv sys ''CF_ACCOUNT_ID'') (sys_Getenv sys ''CF_API_KEY'') m l)
              p l w) of Inl err \<Rightarrow> Inl err | Inr result \<Rightarrow> result_text result)"
  using assms
  by (auto simp: CfTranscribe_def Let_def case_prod_beta split: if_splits sum.splits)

lemma TranscribeAudioGroq_trace:
  assumes "backend_calls (trace (snd (TranscribeAudioGroq sys p pr l w)))
             = backend_calls (trace w) @ [req]"
  shows "trace (snd (TranscribeAudioGroq sys p pr l w)) = trace w @ [HttpDo req]"
  using assms
  by (auto simp: TranscribeAudioGroq_def Let_def emit_simps observers
      split: if_splits sum.splits)

lemma Transcribe_trace:
  assumes "backend_calls (trace (snd (Transcribe sys cf p l w)))
             = backend_calls (trace w) @ [req]"
  shows "trace (snd (Transcribe sys cf p l w)) = trace w @ [HttpDo req]"
  using assms
  by (auto simp: Transcribe_def Let_def emit_simps observers
      split: if_splits sum.splits option.splits)

lemma CfTranscribe_trace:
  assumes "backend_calls (trace (snd (CfTranscribe sys p m l w)))
             = backend_calls (trace w) @ [req]"
  shows "trace (snd (CfTranscribe sys p m l w)) = trace w @ [HttpDo req]"
  using assms Transcribe_trace
  by (auto simp: CfTranscribe_def Let_def case_prod_beta split: if_splits sum.splits)

lemma TranscribeAudioGroq_calls:
  "\<exists>cs. backend_calls (trace (snd (TranscribeAudioGroq sys p pr l w)))
           = backend_calls (trace w) @ cs \<and>
        (cs = [] \<or> (\<exists>req. cs = [req])) \<and>
        (\<forall>req. cs = [req] \<longrightarrow>
           fst (TranscribeAudioGroq sys p pr l w) =
             (case sys_Do sys req of
                Inl err \<Rightarrow> Inl err
              | Inr resp \<Rightarrow>
                  if StatusCode resp \<noteq> 200
                  then Inl (''transcription failed: '' @ Body resp)
                  else sys_DecodeResponse sys (Body resp)))"
proof (cases "sys_Getenv sys ''GROQ_API_KEY'' = []")
  case True
  then show ?thesis
    by (simp add: TranscribeAudioGroq_def)
next
  case key: False
  show ?thesis
  proof (cases "ReadFile (files w) p")
    case (Inl err)
    then show ?thesis
      using key by (simp add: TranscribeAudioGroq_def)
  next
    case (Inr fileData)
    let ?req = "groq_request sys (sys_Getenv sys ''GROQ_API_KEY'') (groq_form p fileData pr l)"
    have "backend_calls (trace (snd (TranscribeAudioGroq sys p pr l w)))
           = backend_calls (trace w) @ [?req]"
      using key Inr
      by (simp add: TranscribeAudioGroq_def Let_def emit_simps observers split: sum.splits)
    moreover have "fst (TranscribeAudioGroq sys p pr l w) =
             (case sys_Do sys ?req of
                Inl err \<Rightarrow> Inl err
              | Inr resp \<Rightarrow>
                  if StatusCode resp \<noteq> 200
                  then Inl (''transcription failed: '' @ Body resp)
                  else sys_DecodeResponse sys (Body resp))"
      using key Inr
      by (simp add: TranscribeAudioGroq_def Let_def split: sum.splits)
    ultimately show ?thesis
      by auto
  qed
qed

text \<open>What follows the transcription in both versions of \<open>processAudioMessage\<close>.\<close>

lemma transcribed:
  assumes calls: "backend_calls (trace w') = backend_calls (trace w) @ [req]"
    and mid: "backend_calls (trace wmid) = backend_calls (trace w)"
      "replies (trace wmid) = replies (trace w)"
    and after:
      "backend_calls (trace w') = backend_calls (trace (snd (TranscribeAudioGroq sys p pr l wmid)))"
      "replies (trace w') =
         replies (trace w) @
           (case fst (TranscribeAudioGroq sys p pr l wmid) of
              Inl err \<Rightarrow> []
            | Inr t \<Rightarrow> [(Chat_ID evt, replyText (TrimSpace t))])"
  shows "replies (trace w') =
           replies (trace w) @
             (case sys_Do sys req of
                Inl err \<Rightarrow> []
              | Inr resp \<Rightarrow>
                  if StatusCode resp \<noteq> 200 then []
                  else (case sys_DecodeResponse sys (Body resp) of
                          Inl err \<Rightarrow> []
                        | Inr t \<Rightarrow> [(Chat_ID evt, replyText (TrimSpace t))]))"
proof -
  obtain cs where cs:
    "backend_calls (trace (snd (TranscribeAudioGroq sys p pr l wmid)))
       = backend_calls (trace wmid) @ cs"
    "\<forall>req. cs = [req] \<longrightarrow>
       fst (TranscribeAudioGroq sys p pr l wmid) =
         (case sys_Do sys req of
            Inl err \<Rightarrow> Inl err
          | Inr resp \<Rightarrow>
              if StatusCode resp \<noteq> 200
              then Inl (''transcription failed: '' @ Body resp)
              else sys_DecodeResponse sys (Body resp))"
    using TranscribeAudioGroq_calls [of sys p pr l wmid] by blast
  have "cs = [req]"
    using calls after(1) cs(1) mid(1) by simp
  then have "fst (TranscribeAudioGroq sys p pr l wmid) =
         (case sys_Do sys req of
            Inl err \<Rightarrow> Inl err
          | Inr resp \<Rightarrow>
              if StatusCode resp \<noteq> 200
              then Inl (''transcription failed: '' @ Body resp)
              else sys_DecodeResponse sys (Body resp))"
    using cs(2) by simp
  then show ?thesis
    using after(2) by (simp split: sum.splits)
qed

lemma processAudioMessage_gt_outcome:
  assumes "backend_calls (trace (snd (processAudioMessage_gt sys evt w)))
             = backend_calls (trace w) @ [req]"
  shows "replies (trace (snd (processAudioMessage_gt sys evt w))) =
           replies (trace w) @
             (case sys_Do sys req of
                Inl err \<Rightarrow> []
              | Inr resp \<Rightarrow>
                  if StatusCode resp \<noteq> 200 then []
                  else (case sys_DecodeResponse sys (Body resp) of
                          Inl err \<Rightarrow> []
                        | Inr t \<Rightarrow> [(Chat_ID evt, replyText (TrimSpace t))]))"
proof -
  have unchanged: False
    if "backend_calls (trace (snd (processAudioMessage_gt sys evt w))) = backend_calls (trace w)"
    using that assms by simp
  show ?thesis
  proof (cases "GetAudioMessage evt")
    case None
    then show ?thesis
      using unchanged by (simp add: processAudioMessage_gt_def)
  next
    case a: (Some a)
    show ?thesis
    proof (cases "sys_Get sys (URL a)")
      case (Inl err)
      then show ?thesis
        using unchanged a by (simp add: processAudioMessage_gt_def Let_def frames)
    next
      case body: (Inr resp_Body)
      show ?thesis
      proof (cases "sys_CreateTemp sys MESSAGES_DIR
                      (''audio-'' @ Itoa (unat (FileLength a)) @ ''-*.webm'')")
        case (Inl err)
        then show ?thesis
          using unchanged a body by (simp add: processAudioMessage_gt_def Let_def frames)
      next
        case tmp: (Inr tmp)
        show ?thesis
        proof (cases "snd resp_Body")
          case (Some err)
          then show ?thesis
            using unchanged a body tmp
            by (simp add: processAudioMessage_gt_def Let_def frames)
        next
          case None
          let ?wmid = "emit (Log ''Audio message downloaded and saved to: %s'')
                         (store tmp (fst resp_Body) (store tmp []
                            (emit (HttpGet (URL a)) w)))"
          show ?thesis
          proof (rule transcribed [where wmid = ?wmid and p = tmp and pr = WHISPER_PROMPT
                and l = "''pt''", OF assms])
            show "backend_calls (trace ?wmid) = backend_calls (trace w)"
              by (simp add: frames)
            show "replies (trace ?wmid) = replies (trace w)"
              by (simp add: frames)
            show "backend_calls (trace (snd (processAudioMessage_gt sys evt w))) =
                backend_calls (trace (snd (TranscribeAudioGroq sys tmp WHISPER_PROMPT ''pt'' ?wmid)))"
              using a body tmp None
              by (simp add: processAudioMessage_gt_def Let_def case_prod_beta frames
                  split: sum.splits option.splits)
            show "replies (trace (snd (processAudioMessage_gt sys evt w))) =
                replies (trace w) @
                  (case fst (TranscribeAudioGroq sys tmp WHISPER_PROMPT ''pt'' ?wmid) of
                     Inl err \<Rightarrow> []
                   | Inr t \<Rightarrow> [(Chat_ID evt, replyText (TrimSpace t))])"
              using a body tmp None
              by (simp add: processAudioMessage_gt_def Let_def case_prod_beta frames
                  split: sum.splits option.splits)
          qed
        qed
      qed
    qed
  qed
qed

lemma processAudioMessage_wh_outcome:
  assumes "backend_calls (trace (snd (processAudioMessage_wh sys evt w)))
             = backend_calls (trace w) @ [req]"
  shows "replies (trace (snd (processAudioMessage_wh sys evt w))) =
           replies (trace w) @
             (case sys_Do sys req of
                Inl err \<Rightarrow> []
              | Inr resp \<Rightarrow>
                  if StatusCode resp \<noteq> 200 then []
                  else (case sys_DecodeResponse sys (Body resp) of
                          Inl err \<Rightarrow> []
                        | Inr t \<Rightarrow> [(Chat_ID evt, replyText (TrimSpace t))]))"
proof -
  have unchanged: False
    if "backend_calls (trace (snd (processAudioMessage_wh sys evt w))) = backend_calls (trace w)"
    using that assms by simp
  show ?thesis
  proof (cases "sys_DownloadToFile sys (GetAudioMessage evt)")
    case None
    then show ?thesis
      using unchanged by (simp add: processAudioMessage_wh_def Let_def frames)
  next
    case d: (Some audioMsg)
    show ?thesis
    proof (cases "sys_CreateTemp sys MESSAGES_DIR ''audio-%!d(MISSING)-*.webm''")
      case (Inl err)
      then show ?thesis
        using unchanged d by (simp add: processAudioMessage_wh_def Let_def frames)
    next
      case tmp: (Inr tmp)
      show ?thesis
      proof (cases "snd (reader audioMsg)")
        case (Some err)
        then show ?thesis
          using unchanged d tmp by (simp add: processAudioMessage_wh_def Let_def frames)
      next
        case None
        let ?wmid = "emit (Log ''Audio message downloaded and saved to: %s'')
                       (store tmp (fst (reader audioMsg)) (store tmp []
                          (emit (Download (GetAudioMessage evt)) w)))"
        show ?thesis
        proof (rule transcribed [where wmid = ?wmid and p = "as_path audioMsg"
              and pr = WHISPER_PROMPT and l = "''pt''", OF assms])
          show "backend_calls (trace ?wmid) = backend_calls (trace w)"
            by (simp add: frames)
          show "replies (trace ?wmid) = replies (trace w)"
            by (simp add: frames)
          show "backend_calls (trace (snd (processAudioMessage_wh sys evt w))) =
              backend_calls (trace (snd (TranscribeAudioGroq sys (as_path audioMsg)
                                           WHISPER_PROMPT ''pt'' ?wmid)))"
            using d tmp None
            by (simp add: processAudioMessage_wh_def Let_def case_prod_beta frames
                split: sum.splits option.splits)
          show "replies (trace (snd (processAudioMessage_wh sys evt w))) =
              replies (trace w) @
                (case fst (TranscribeAudioGroq sys (as_path audioMsg)
                             WHISPER_PROMPT ''pt'' ?wmid) of
                   Inl err \<Rightarrow> []
                 | Inr t \<Rightarrow> [(Chat_ID evt, replyText (TrimSpace t))])"
            using d tmp None
            by (simp add: processAudioMessage_wh_def Let_def case_prod_beta frames
                split: sum.splits option.splits)
        qed
      qed
    qed
  qed
qed

text \<open>The handlers add log lines to what \<open>processAudioMessage\<close> does.\<close>

lemma handleMessage_gt_calls:
  "(backend_calls (trace (handleMessage_gt sys evt w)) = backend_calls (trace w) \<and>
    replies (trace (handleMessage_gt sys evt w)) = replies (trace w)) \<or>
   (\<exists>wa. backend_calls (trace wa) = backend_calls (trace w) \<and>
         replies (trace wa) = replies (trace w) \<and>
         backend_calls (trace (handleMessage_gt sys evt w))
           = backend_calls (trace (snd (processAudioMessage_gt sys evt wa))) \<and>
         replies (trace (handleMessage_gt sys evt w))
           = replies (trace (snd (processAudioMessage_gt sys evt wa))))"
proof (cases "IsGroup evt \<or> index (EXCLUDED_NUMBERS w) (Sender_User evt)
    \<or> GetAudioMessage evt = None")
  case True
  then show ?thesis
    by (auto simp: handleMessage_gt_def Let_def frames)
next
  case False
  let ?wa = "emit (Log ''Audio message detected, processing transcription...'') w"
  have "backend_calls (trace ?wa) = backend_calls (trace w)"
    "replies (trace ?wa) = replies (trace w)"
    by (simp_all add: frames)
  moreover have "backend_calls (trace (handleMessage_gt sys evt w))
           = backend_calls (trace (snd (processAudioMessage_gt sys evt ?wa)))"
    "replies (trace (handleMessage_gt sys evt w))
           = replies (trace (snd (processAudioMessage_gt sys evt ?wa)))"
    using False
    by (auto simp: handleMessage_gt_def Let_def case_prod_beta frames split: option.splits)
  ultimately show ?thesis
    by blast
qed

lemma handleMessage_wh_calls:
  "(backend_calls (trace (snd (handleMessage_wh sys evt w))) = backend_calls (trace w) \<and>
    replies (trace (snd (handleMessage_wh sys evt w))) = replies (trace w)) \<or>
   (\<exists>wa. backend_calls (trace wa) = backend_calls (trace w) \<and>
         replies (trace wa) = replies (trace w) \<and>
         backend_calls (trace (snd (handleMessage_wh sys evt w)))
           = backend_calls (trace (snd (processAudioMessage_wh sys evt wa))) \<and>
         replies (trace (snd (handleMessage_wh sys evt w)))
           = replies (trace (snd (processAudioMessage_wh sys evt wa))))"
proof -
  obtain e w' where s: "save_audio sys evt w = (e, w')"
    by (cases "save_audio sys evt w")
  have fr: "backend_calls (trace w') = backend_calls (trace w)"
    "replies (trace w') = replies (trace w)"
    "EXCLUDED_NUMBERS w' = EXCLUDED_NUMBERS w"
    using save_audio_frame [of sys evt w] s by simp_all
  show ?thesis
  proof (cases "e \<noteq> None \<or> IsGroup evt \<or> index (EXCLUDED_NUMBERS w) (Sender_User evt)
      \<or> GetAudioMessage evt = None")
    case True
    then have "backend_calls (trace (snd (handleMessage_wh sys evt w))) = backend_calls (trace w) \<and>
        replies (trace (snd (handleMessage_wh sys evt w))) = replies (trace w)"
      using s fr by (auto simp: handleMessage_wh_def Let_def frames split: option.splits)
    then show ?thesis
      by blast
  next
    case False
    let ?wa = "emit (Log ''Audio message detected, processing transcription...'') w'"
    have "backend_calls (trace ?wa) = backend_calls (trace w)"
      "replies (trace ?wa) = replies (trace w)"
      using fr by (simp_all add: frames)
    moreover have "backend_calls (trace (snd (handleMessage_wh sys evt w)))
             = backend_calls (trace (snd (processAudioMessage_wh sys evt ?wa)))"
      "replies (trace (snd (handleMessage_wh sys evt w)))
             = replies (trace (snd (processAudioMessage_wh sys evt ?wa)))"
      using False s fr
      by (auto simp: handleMessage_wh_def Let_def case_prod_beta frames split: option.splits)
    ultimately show ?thesis
      by blast
  qed
qed

lemma handleMessage_gt_outcome:
  assumes "backend_calls (trace (handleMessage_gt sys evt w)) = backend_calls (trace w) @ [req]"
  shows "replies (trace (handleMessage_gt sys evt w)) =
           replies (trace w) @
             (case sys_Do sys req of
                Inl err \<Rightarrow> []
              | Inr resp \<Rightarrow>
                  if StatusCode resp \<noteq> 200 then []
                  else (case sys_DecodeResponse sys (Body resp) of
                          Inl err \<Rightarrow> []
                        | Inr t \<Rightarrow> [(Chat_ID evt, replyText (TrimSpace t))]))"
proof -
  have "backend_calls (trace (handleMessage_gt sys evt w)) \<noteq> backend_calls (trace w)"
    using assms by simp
  then obtain wa where wa:
    "backend_calls (trace wa) = backend_calls (trace w)"
    "replies (trace wa) = replies (trace w)"
    "backend_calls (trace (handleMessage_gt sys evt w))
       = backend_calls (trace (snd (processAudioMessage_gt sys evt wa)))"
    "replies (trace (handleMessage_gt sys evt w))
       = replies (trace (snd (processAudioMessage_gt sys evt wa)))"
    using handleMessage_gt_calls [of sys evt w] by blast
  have "backend_calls (trace (snd (processAudioMessage_gt sys evt wa)))
      = backend_calls (trace wa) @ [req]"
    using assms wa(1,3) by simp
  then show ?thesis
    using processAudioMessage_gt_outcome [of sys evt wa req] wa(2,4) by simp
qed

lemma handleMessage_wh_outcome:
  assumes "backend_calls (trace (snd (handleMessage_wh sys evt w)))
             = backend_calls (trace w) @ [req]"
  shows "replies (trace (snd (handleMessage_wh sys evt w))) =
           replies (trace w) @
             (case sys_Do sys req of
                Inl err \<Rightarrow> []
              | Inr resp \<Rightarrow>
                  if StatusCode resp \<noteq> 200 then []
                  else (case sys_DecodeResponse sys (Body resp) of
                          Inl err \<Rightarrow> []
                        | Inr t \<Rightarrow> [(Chat_ID evt, replyText (TrimSpace t))]))"
proof -
  have "backend_calls (trace (snd (handleMessage_wh sys evt w))) \<noteq> backend_calls (trace w)"
    using assms by simp
  then obtain wa where wa:
    "backend_calls (trace wa) = backend_calls (trace w)"
    "replies (trace wa) = replies (trace w)"
    "backend_calls (trace (snd (handleMessage_wh sys evt w)))
       = backend_calls (trace (snd (processAudioMessage_wh sys evt wa)))"
    "replies (trace (snd (handleMessage_wh sys evt w)))
       = replies (trace (snd (processAudioMessage_wh sys evt wa)))"
    using handleMessage_wh_calls [of sys evt w] by blast
  have "backend_calls (trace (snd (processAudioMessage_wh sys evt wa)))
      = backend_calls (trace wa) @ [req]"
    using assms wa(1,3) by simp
  then show ?thesis
    using processAudioMessage_wh_outcome [of sys evt wa req] wa(2,4) by simp
qed

subsection \<open>Ignored events\<close>



subsection \<open>How the audio is fetched\<close>

text \<open>
  Claim C2. \<open>processAudioMessage\<close> of src/groq_transcriber.go fetches every audio
  message with one \<open>http.Get\<close> on the URL of the message and never through the
  transport, whatever the message holds; \<open>processAudioMessage\<close> of
  src/whatsapp_handler.go fetches it with one \<open>client.DownloadToFile\<close> and never with
  \<open>http.Get\<close>.
\<close>

theorem retrieval_channel:
  assumes "GetAudioMessage evt = Some a"
  shows "raw_gets (trace (snd (processAudioMessage_gt sys evt w))) = raw_gets (trace w) @ [URL a] \<and>
         downloads (trace (snd (processAudioMessage_gt sys evt w))) = downloads (trace w) \<and>
         raw_gets (trace (snd (processAudioMessage_wh sys evt w))) = raw_gets (trace w) \<and>
         downloads (trace (snd (processAudioMessage_wh sys evt w))) = downloads (trace w) @ [Some a]"
proof -
  have gt1: "raw_gets (trace (snd (processAudioMessage_gt sys evt w))) = raw_gets (trace w) @ [URL a]"
    using assms
    by (simp add: processAudioMessage_gt_def Let_def case_prod_beta frames
        split: option.splits sum.splits)
  have gt2: "downloads (trace (snd (processAudioMessage_gt sys evt w))) = downloads (trace w)"
    using assms
    by (simp add: processAudioMessage_gt_def Let_def case_prod_beta frames
        split: option.splits sum.splits)
  have wh1: "raw_gets (trace (snd (processAudioMessage_wh sys evt w))) = raw_gets (trace w)"
    using assms
    by (simp add: processAudioMessage_wh_def Let_def case_prod_beta frames
        split: option.splits sum.splits)
  have wh2: "downloads (trace (snd (processAudioMessage_wh sys evt w))) = downloads (trace w) @ [Some a]"
    using assms
    by (simp add: processAudioMessage_wh_def Let_def case_prod_beta frames
        split: option.splits sum.splits)
  show ?thesis using gt1 gt2 wh1 wh2 by simp
qed

theorem retrieval_channel_witness:
  "GetAudioMessage evt_audio = Some audio0 \<and> MediaKey audio0 \<noteq> [] \<and>
   raw_gets (trace (snd (processAudioMessage_gt sys0 evt_audio w0)))
     = [''https://mmg.whatsapp.net/v/t62.7117-24/1.enc''] \<and>
   downloads (trace (snd (processAudioMessage_gt sys0 evt_audio w0))) = [] \<and>
   raw_gets (trace (snd (processAudioMessage_wh sys0 evt_audio w0))) = [] \<and>
   downloads (trace (snd (processAudioMessage_wh sys0 evt_audio w0))) = [Some audio0]"
  using retrieval_channel [of evt_audio audio0 sys0 w0]
  by (simp add: samples GetAudioMessage_def observers)

subsection \<open>The temporary file\<close>

text \<open>
  Claim C3. In src/groq_transcriber.go, when the temporary file has been created and
  \<open>processAudioMessage\<close> ends without a reply (the copy or the transcription has
  failed), the file is still there at the end, with the bytes that arrived; when it ends
  with a reply, the file has been removed. In src/whatsapp_handler.go the file is there
  at the end on every path.
\<close>

theorem temp_file_left_behind:
  "(GetAudioMessage evt = Some a \<and> sys_Get sys (URL a) = Inr resp_Body \<and>
    sys_CreateTemp sys MESSAGES_DIR (''audio-'' @ Itoa (unat (FileLength a)) @ ''-*.webm'')
      = Inr tmp \<and>
    replies (trace (snd (processAudioMessage_gt sys evt w))) = replies (trace w)
    \<longrightarrow> files (snd (processAudioMessage_gt sys evt w)) tmp = Some (fst resp_Body)) \<and>
   (GetAudioMessage evt = Some a \<and> sys_Get sys (URL a) = Inr resp_Body \<and>
    sys_CreateTemp sys MESSAGES_DIR (''audio-'' @ Itoa (unat (FileLength a)) @ ''-*.webm'')
      = Inr tmp \<and>
    replies (trace (snd (processAudioMessage_gt sys evt w))) \<noteq> replies (trace w)
    \<longrightarrow> files (snd (processAudioMessage_gt sys evt w)) tmp = None) \<and>
   (sys_DownloadToFile sys (GetAudioMessage evt) = Some audioMsg \<and>
    sys_CreateTemp sys MESSAGES_DIR ''audio-%!d(MISSING)-*.webm'' = Inr tmp
    \<longrightarrow> files (snd (processAudioMessage_wh sys evt w)) tmp = Some (fst (reader audioMsg)))"
proof -
  have gt: "files (snd (processAudioMessage_gt sys evt w)) tmp = Some (fst resp_Body)"
    if "GetAudioMessage evt = Some a" "sys_Get sys (URL a) = Inr resp_Body"
      "sys_CreateTemp sys MESSAGES_DIR (''audio-'' @ Itoa (unat (FileLength a)) @ ''-*.webm'')
        = Inr tmp"
      "replies (trace (snd (processAudioMessage_gt sys evt w))) = replies (trace w)"
    using that
    by (simp add: processAudioMessage_gt_def Let_def case_prod_beta frames
        split: option.splits sum.splits)
  have ok: "files (snd (processAudioMessage_gt sys evt w)) tmp = None"
    if "GetAudioMessage evt = Some a" "sys_Get sys (URL a) = Inr resp_Body"
      "sys_CreateTemp sys MESSAGES_DIR (''audio-'' @ Itoa (unat (FileLength a)) @ ''-*.webm'')
        = Inr tmp"
      "replies (trace (snd (processAudioMessage_gt sys evt w))) \<noteq> replies (trace w)"
    using that
    by (simp add: processAudioMessage_gt_def Let_def case_prod_beta frames
        split: option.splits sum.splits)
  have wh: "files (snd (processAudioMessage_wh sys evt w)) tmp = Some (fst (reader audioMsg))"
    if "sys_DownloadToFile sys (GetAudioMessage evt) = Some audioMsg"
      "sys_CreateTemp sys MESSAGES_DIR ''audio-%!d(MISSING)-*.webm'' = Inr tmp"
    using that
    by (simp add: processAudioMessage_wh_def Let_def case_prod_beta frames
        split: option.splits sum.splits)
  show ?thesis using gt ok wh by blast
qed

theorem temp_file_left_behind_witness:
  "fst (processAudioMessage_gt sys_nokey evt_audio w0)
     = Some ''GROQ_API_KEY not set in environment'' \<and>
   files (snd (processAudioMessage_gt sys_nokey evt_audio w0)) ''messages/audio-4-1.webm''
     = Some ''OggS'' \<and>
   files (snd (processAudioMessage_gt sys0 evt_audio w0)) ''messages/audio-4-1.webm''
     = None \<and>
   fst (processAudioMessage_wh sys0 evt_audio w2) = None \<and>
   files (snd (processAudioMessage_wh sys0 evt_audio w2)) ''messages/audio-4-1.webm''
     = Some ''OggS''"
proof -
  have ok: "replies (trace (snd (processAudioMessage_gt sys0 evt_audio w0)))
      = [(''5511888@s.whatsapp.net'', replyText (TrimSpace ''  oi  ''))]"
    by (simp add: run samples observers)
  have gt: "processAudioMessage_gt sys_nokey evt_audio w0 =
      (Some ''GROQ_API_KEY not set in environment'',
       emit (Log ''Error during transcription: %v'')
         (emit (Log ''Audio message downloaded and saved to: %s'')
           (store ''messages/audio-4-1.webm'' ''OggS''
             (store ''messages/audio-4-1.webm'' []
               (emit (HttpGet ''https://mmg.whatsapp.net/v/t62.7117-24/1.enc'') w0)))))"
    by (simp add: processAudioMessage_gt_def TranscribeAudioGroq_def GetAudioMessage_def
        Let_def samples)
  have wh: "fst (processAudioMessage_wh sys0 evt_audio w2) = None"
    by (simp add: processAudioMessage_wh_def TranscribeAudioGroq_def GetAudioMessage_def
        reply_def ReadFile_def Let_def samples emit_simps store_simps)
  show ?thesis
    using temp_file_left_behind [where evt = evt_audio and a = audio0 and sys = sys_nokey
        and resp_Body = "(''OggS'', None)" and tmp = "''messages/audio-4-1.webm''" and w = w0
        and audioMsg = "\<lparr>reader = (''OggS'', None), as_path = ''downloads/3EB0.ogg''\<rparr>"]
      temp_file_left_behind [where evt = evt_audio and a = audio0 and sys = sys0
        and resp_Body = "(''OggS'', None)" and tmp = "''messages/audio-4-1.webm''" and w = w2
        and audioMsg = "\<lparr>reader = (''OggS'', None), as_path = ''downloads/3EB0.ogg''\<rparr>"]
      temp_file_left_behind [where evt = evt_audio and a = audio0 and sys = sys0
        and resp_Body = "(''OggS'', None)" and tmp = "''messages/audio-4-1.webm''" and w = w0
        and audioMsg = "\<lparr>reader = (''OggS'', None), as_path = ''downloads/3EB0.ogg''\<rparr>"]
      gt ok wh
    by (simp add: samples GetAudioMessage_def emit_simps store_simps observers)
qed

subsection \<open>A response that is not 200\<close>

text \<open>
  Claim C4. When the response to the request that \<open>TranscribeAudioGroq\<close>,
  \<open>CFTranscriber.Transcribe\<close> or \<open>CfTranscribe\<close> has sent has a status other than
  200, the function returns the error \<open>transcription failed:\<close> followed by the body of
  the response, and no transcript. When the response to the request that a handler has
  sent for an event has a status other than 200, the handler sends no reply.
\<close>

theorem refused_request:
  assumes "sys_Do sys req = Inr resp" and "StatusCode resp \<noteq> 200"
  shows
    "(backend_calls (trace (snd (TranscribeAudioGroq sys audioPath prompt language w)))
        = backend_calls (trace w) @ [req]
      \<longrightarrow> fst (TranscribeAudioGroq sys audioPath prompt language w)
            = Inl (''transcription failed: '' @ Body resp)) \<and>
     (backend_calls (trace (snd (Transcribe sys cf audioPath language w)))
        = backend_calls (trace w) @ [req]
      \<longrightarrow> fst (Transcribe sys cf audioPath language w)
            = Inl (''transcription failed: '' @ Body resp)) \<and>
     (backend_calls (trace (snd (CfTranscribe sys audioPath model language w)))
        = backend_calls (trace w) @ [req]
      \<longrightarrow> fst (CfTranscribe sys audioPath model language w)
            = Inl (''transcription failed: '' @ Body resp)) \<and>
     (backend_calls (trace (handleMessage_gt sys evt w)) = backend_calls (trace w) @ [req]
      \<longrightarrow> replies (trace (handleMessage_gt sys evt w)) = replies (trace w)) \<and>
     (backend_calls (trace (snd (handleMessage_wh sys evt w))) = backend_calls (trace w) @ [req]
      \<longrightarrow> replies (trace (snd (handleMessage_wh sys evt w))) = replies (trace w))"
proof -
  have b: "fst (TranscribeAudioGroq sys audioPath prompt language w)
          = Inl (''transcription failed: '' @ Body resp)"
    if "backend_calls (trace (snd (TranscribeAudioGroq sys audioPath prompt language w)))
        = backend_calls (trace w) @ [req]"
    using TranscribeAudioGroq_sent [OF TranscribeAudioGroq_trace [OF that] assms(1)] assms(2)
    by simp
  have a: "fst (Transcribe sys cf audioPath language w)
          = Inl (''transcription failed: '' @ Body resp)"
    if "trace (snd (Transcribe sys cf audioPath language w)) = trace w @ [HttpDo req]" for cf
    using Transcribe_sent [OF that assms(1)] assms(2) by simp
  have a': "fst (Transcribe sys cf audioPath language w)
          = Inl (''transcription failed: '' @ Body resp)"
    if "backend_calls (trace (snd (Transcribe sys cf audioPath language w)))
        = backend_calls (trace w) @ [req]"
    using a [OF Transcribe_trace [OF that]] .
  have c: "fst (CfTranscribe sys audioPath model language w)
          = Inl (''transcription failed: '' @ Body resp)"
    if "backend_calls (trace (snd (CfTranscribe sys audioPath model language w)))
        = backend_calls (trace w) @ [req]"
    using CfTranscribe_Transcribe [OF CfTranscribe_trace [OF that]] a by simp
  have g: "replies (trace (handleMessage_gt sys evt w)) = replies (trace w)"
    if "backend_calls (trace (handleMessage_gt sys evt w)) = backend_calls (trace w) @ [req]"
    using handleMessage_gt_outcome [OF that] assms by simp
  have h: "replies (trace (snd (handleMessage_wh sys evt w))) = replies (trace w)"
    if "backend_calls (trace (snd (handleMessage_wh sys evt w)))
        = backend_calls (trace w) @ [req]"
    using handleMessage_wh_outcome [OF that] assms by simp
  show ?thesis
    using a' b c g h by blast
qed

theorem refused_request_witness:
  "fst (TranscribeAudioGroq sys_401 ''messages/a.ogg'' WHISPER_PROMPT ''pt'' w1)
     = Inl (''transcription failed: '' @ Body resp_401) \<and>
   fst (CfTranscribe sys_401 ''messages/a.ogg'' [] ''pt'' w1)
     = Inl (''transcription failed: '' @ Body resp_401) \<and>
   backend_calls (trace (handleMessage_gt sys_401 evt_audio w0))
     = [groq_request sys_401 ''gsk''
          (groq_form ''messages/audio-4-1.webm'' ''OggS'' WHISPER_PROMPT ''pt'')] \<and>
   replies (trace (handleMessage_gt sys_401 evt_audio w0)) = [] \<and>
   backend_calls (trace (snd (handleMessage_wh sys_401 evt_audio w0)))
     = [groq_request sys_401 ''gsk''
          (groq_form ''downloads/3EB0.ogg'' ''OggS'' WHISPER_PROMPT ''pt'')] \<and>
   replies (trace (snd (handleMessage_wh sys_401 evt_audio w0))) = []"
proof -
  let ?cf = "NewCFTranscriber ''acc'' ''tok'' [] ''pt''"
  have b: "backend_calls (trace (snd
        (TranscribeAudioGroq sys_401 ''messages/a.ogg'' WHISPER_PROMPT ''pt'' w1)))
      = backend_calls (trace w1) @ [groq_request sys_401 ''gsk''
          (groq_form ''messages/a.ogg'' ''OggS'' WHISPER_PROMPT ''pt'')]"
    by (simp add: run samples observers)
  have a: "backend_calls (trace (snd (CfTranscribe sys_401 ''messages/a.ogg'' [] ''pt'' w1)))
      = backend_calls (trace w1) @
          [cf_request ?cf (cf_payload ?cf (EncodeToString ''OggS'') ''pt'')]"
    by (simp add: CfTranscribe_def Transcribe_def encodeAudioFile_def run samples observers
        del: EncodeToString.simps)
  have g: "backend_calls (trace (handleMessage_gt sys_401 evt_audio w0))
      = backend_calls (trace w0) @ [groq_request sys_401 ''gsk''
          (groq_form ''messages/audio-4-1.webm'' ''OggS'' WHISPER_PROMPT ''pt'')]"
    by (simp add: run samples observers)
  have h: "backend_calls (trace (snd (handleMessage_wh sys_401 evt_audio w0)))
      = backend_calls (trace w0) @ [groq_request sys_401 ''gsk''
          (groq_form ''downloads/3EB0.ogg'' ''OggS'' WHISPER_PROMPT ''pt'')]"
    by (simp add: run samples observers Join_def Dir_def Clean_def clean_step_def)
  have d: "sys_Do sys_401 req = Inr resp_401" for req
    by (simp add: samples)
  have s: "StatusCode resp_401 \<noteq> 200"
    by (simp add: samples)
  have e: "backend_calls (trace w0) = []" "replies (trace w0) = []"
    by (simp_all add: w0_def observers)
  show ?thesis
    using refused_request [OF d s, where audioPath = "''messages/a.ogg''"
        and prompt = WHISPER_PROMPT and language = "''pt''" and w = w1, THEN conjunct1] b
      refused_request [OF d s, where audioPath = "''messages/a.ogg''"
        and model = "[]" and language = "''pt''" and w = w1,
        THEN conjunct2, THEN conjunct2, THEN conjunct1] a
      refused_request [OF d s, where evt = evt_audio and w = w0,
        THEN conjunct2, THEN conjunct2, THEN conjunct2] g h e
    by simp
qed

subsection \<open>The response of Backend A\<close>

text \<open>
  Claim C5. When the response to the request of \<open>CfTranscribe\<close> has the status 200:
  if the body decodes to a map whose \<open>result\<close> is a map whose \<open>text\<close> is a string,
  \<open>CfTranscribe\<close> returns that string; if it decodes to a map without such a field,
  \<open>CfTranscribe\<close> returns the error \<open>transcription text not found in response\<close>; if
  it does not decode, \<open>CfTranscribe\<close> returns the error of the decoder.
\<close>

theorem cf_response_text:
  assumes "backend_calls (trace (snd (CfTranscribe sys audioPath model language w)))
             = backend_calls (trace w) @ [req]"
    and "sys_Do sys req = Inr resp"
    and "StatusCode resp = 200"
  shows "(\<forall>result res t.
            sys_DecodeMap sys (Body resp) = Inr result \<and>
            result ''result'' = Some (JObject res) \<and> res ''text'' = Some (JString t)
            \<longrightarrow> fst (CfTranscribe sys audioPath model language w) = Inr t) \<and>
         (\<forall>result.
            sys_DecodeMap sys (Body resp) = Inr result \<and>
            (\<forall>res t. \<not> (result ''result'' = Some (JObject res) \<and> res ''text'' = Some (JString t)))
            \<longrightarrow> fst (CfTranscribe sys audioPath model language w)
                  = Inl ''transcription text not found in response'') \<and>
         (\<forall>err. sys_DecodeMap sys (Body resp) = Inl err
            \<longrightarrow> fst (CfTranscribe sys audioPath model language w) = Inl err)"
proof -
  let ?cf = "NewCFTranscriber (sys_Getenv sys ''CF_ACCOUNT_ID'') (sys_Getenv sys ''CF_API_KEY'')
               model language"
  have tr: "trace (snd (Transcribe sys ?cf audioPath language w)) = trace w @ [HttpDo req]"
    and res: "fst (CfTranscribe sys audioPath model language w) =
           (case fst (Transcribe sys ?cf audioPath language w) of
              Inl err \<Rightarrow> Inl err | Inr result \<Rightarrow> result_text result)"
    using CfTranscribe_Transcribe [OF CfTranscribe_trace [OF assms(1)]] by simp_all
  have dec: "fst (Transcribe sys ?cf audioPath language w) = sys_DecodeMap sys (Body resp)"
    using Transcribe_sent [OF tr assms(2)] assms(3) by simp
  have found: "result_text result = Inr t"
    if "result ''result'' = Some (JObject res)" "res ''text'' = Some (JString t)"
    for result res t
    using that by (simp add: result_text_def)
  have missing: "result_text result = Inl ''transcription text not found in response''"
    if "\<forall>res t. \<not> (result ''result'' = Some (JObject res) \<and> res ''text'' = Some (JString t))"
    for result
    using that by (auto simp: result_text_def split: option.splits json.splits)
  show ?thesis
    using res dec found missing by simp
qed

theorem cf_response_text_witness:
  "fst (CfTranscribe sys_hello ''messages/a.ogg'' [] [] w1) = Inr ''hello'' \<and>
   fst (CfTranscribe sys_empty ''messages/a.ogg'' [] [] w1)
     = Inl ''transcription text not found in response''"
proof -
  let ?cf = "NewCFTranscriber ''acc'' ''tok'' [] []"
  let ?req = "cf_request ?cf (cf_payload ?cf (EncodeToString ''OggS'') ''en'')"
  have h: "backend_calls (trace (snd (CfTranscribe sys_hello ''messages/a.ogg'' [] [] w1)))
      = backend_calls (trace w1) @ [?req]"
    by (simp add: CfTranscribe_def Transcribe_def encodeAudioFile_def ReadFile_def Let_def
        samples emit_simps observers del: EncodeToString.simps)
  have e: "backend_calls (trace (snd (CfTranscribe sys_empty ''messages/a.ogg'' [] [] w1)))
      = backend_calls (trace w1) @ [?req]"
    by (simp add: CfTranscribe_def Transcribe_def encodeAudioFile_def ReadFile_def Let_def
        samples emit_simps observers del: EncodeToString.simps)
  have dh: "sys_Do sys_hello ?req = Inr resp_hello" "StatusCode resp_hello = 200"
    "sys_DecodeMap sys_hello (Body resp_hello)
       = Inr [''result'' \<mapsto> JObject [''text'' \<mapsto> JString ''hello'']]"
    by (simp_all add: samples)
  have de: "sys_Do sys_empty ?req = Inr resp_empty" "StatusCode resp_empty = 200"
    "sys_DecodeMap sys_empty (Body resp_empty) = Inr [''result'' \<mapsto> JObject Map.empty]"
    by (simp_all add: samples)
  show ?thesis
    using cf_response_text [OF h dh(1,2)] cf_response_text [OF e de(1,2)] dh(3) de(3)
    by simp
qed

subsection \<open>The exclusion lookup\<close>

text \<open>
  Claim C6. The lookup \<open>EXCLUDED_NUMBERS[sender]\<close> on the map that
  \<open>loadExcludedNumbers\<close> returns is true exactly for the senders that are the trimmed
  text of a line of the file that is not blank; when the file cannot be read the map is
  empty and the lookup is false for every sender.
\<close>

theorem exclusion_lookup:
  "(fs path = None \<longrightarrow> loadExcludedNumbers fs path = Map.empty) \<and>
   index (loadExcludedNumbers fs path) sender =
     (case fs path of
        None \<Rightarrow> False
      | Some data \<Rightarrow>
          \<exists>line \<in> set (Split data LF). TrimSpace line = sender \<and> TrimSpace line \<noteq> [])"
  by (cases "fs path")
     (simp_all add: loadExcludedNumbers_def ReadFile_def index_fold_add_line index_empty)

theorem exclusion_lookup_witness:
  "index (loadExcludedNumbers [''exclude.txt'' \<mapsto> exclude_txt] ''exclude.txt'') ''5522'' \<and>
   \<not> index (loadExcludedNumbers [''exclude.txt'' \<mapsto> exclude_txt] ''exclude.txt'') '' 5522'' \<and>
   \<not> index (loadExcludedNumbers Map.empty ''exclude.txt'') ''5522''"
proof -
  have lines: "Split exclude_txt LF =
      [''5511999'', [],
       [CHR '' '', CHR '' '', CHR ''5'', CHR ''5'', CHR ''2'', CHR ''2'', CHR '' '', CHR 0x0D],
       []]"
    by code_simp
  have t1: "TrimSpace ''5511999'' = ''5511999''" by code_simp
  have t2: "TrimSpace [] = []" by code_simp
  have t3: "TrimSpace
      [CHR '' '', CHR '' '', CHR ''5'', CHR ''5'', CHR ''2'', CHR ''2'', CHR '' '', CHR 0x0D]
      = ''5522''"
    by code_simp
  show ?thesis
    using exclusion_lookup [of "[''exclude.txt'' \<mapsto> exclude_txt]" "''exclude.txt''" "''5522''"]
      exclusion_lookup [of "[''exclude.txt'' \<mapsto> exclude_txt]" "''exclude.txt''" "'' 5522''"]
      exclusion_lookup [of Map.empty "''exclude.txt''" "''5522''"]
    by (simp add: lines t1 t2 t3 index_empty)
qed

subsection \<open>The reply\<close>








subsection \<open>Credentials\<close>

lemma setupDirectories_Getenv:
  "setupDirectories (sys\<lparr>sys_Getenv := g\<rparr>) dirs = setupDirectories sys dirs"
  by (induction dirs) (simp_all split: option.splits)

lemma connect_Getenv: "connect (sys\<lparr>sys_Getenv := g\<rparr>) = connect sys"
  by (simp add: connect_def fun_eq_iff split: option.splits)

lemma TranscribeAudioGroq_no_key:
  assumes "sys_Getenv sys ''GROQ_API_KEY'' = []"
  shows "TranscribeAudioGroq sys p pr l w = (Inl ''GROQ_API_KEY not set in environment'', w)"
  using assms by (simp add: TranscribeAudioGroq_def)

lemma handleMessage_no_key:
  assumes "sys_Getenv sys ''GROQ_API_KEY'' = []"
  shows "replies (trace (handleMessage_gt sys evt w)) = replies (trace w)"
    and "backend_calls (trace (handleMessage_gt sys evt w)) = backend_calls (trace w)"
    and "replies (trace (snd (handleMessage_wh sys evt w))) = replies (trace w)"
    and "backend_calls (trace (snd (handleMessage_wh sys evt w))) = backend_calls (trace w)"
proof -
  note k = TranscribeAudioGroq_no_key [OF assms]
  show "replies (trace (handleMessage_gt sys evt w)) = replies (trace w)"
    by (simp add: handleMessage_gt_def processAudioMessage_gt_def Let_def case_prod_beta
        emit_simps store_simps observers k split: option.splits sum.splits)
  show "backend_calls (trace (handleMessage_gt sys evt w)) = backend_calls (trace w)"
    by (simp add: handleMessage_gt_def processAudioMessage_gt_def Let_def case_prod_beta
        emit_simps store_simps observers k split: option.splits sum.splits)
  obtain e w' where s: "save_audio sys evt w = (e, w')"
    by (cases "save_audio sys evt w")
  have fr: "replies (trace w') = replies (trace w)"
    "backend_calls (trace w') = backend_calls (trace w)"
    using save_audio_frame [of sys evt w] s by simp_all
  show "replies (trace (snd (handleMessage_wh sys evt w))) = replies (trace w)"
    using s fr
    by (simp add: handleMessage_wh_def processAudioMessage_wh_def Let_def case_prod_beta
        emit_simps store_simps observers k split: option.splits sum.splits)
  show "backend_calls (trace (snd (handleMessage_wh sys evt w))) = backend_calls (trace w)"
    using s fr
    by (simp add: handleMessage_wh_def processAudioMessage_wh_def Let_def case_prod_beta
        emit_simps store_simps observers k split: option.splits sum.splits)
qed

text \<open>
  With no credential in the environment, both versions of \<open>main\<close> connect and wait
  for events, and the missing key is found by the call of \<open>TranscribeAudioGroq\<close>.
\<close>

theorem startup_without_credentials:
  "sys_Getenv sys_nokey ''GROQ_API_KEY'' = [] \<and>
   sys_Getenv sys_nokey ''CF_ACCOUNT_ID'' = [] \<and>
   sys_Getenv sys_nokey ''CF_API_KEY'' = [] \<and>
   fst (main_wh sys_nokey w0) = Running \<and>
   fst (main_gt sys_nokey w0) = Running \<and>
   fst (TranscribeAudioGroq sys_nokey ''messages/a.ogg'' WHISPER_PROMPT ''pt'' w1)
     = Inl ''GROQ_API_KEY not set in environment''"
  by (simp add: main_wh_def main_gt_def connect_def TranscribeAudioGroq_def Let_def samples
      LOG_DIR_def MESSAGES_DIR_def)

text \<open>
  Claim C8, as amended. Neither version of \<open>main\<close> reads the environment: it ends
  the same way whatever the variables hold. \<open>TranscribeAudioGroq\<close> and
  \<open>CfTranscribe\<close> read their credentials on every call and, when one is empty, return
  an error and do nothing else; the handlers then send no request and no reply.
\<close>

theorem credentials_read_per_call:
  "main_wh (sys\<lparr>sys_Getenv := g\<rparr>) w = main_wh sys w \<and>
   main_gt (sys\<lparr>sys_Getenv := g\<rparr>) w = main_gt sys w \<and>
   (sys_Getenv sys ''GROQ_API_KEY'' = []
    \<longrightarrow> TranscribeAudioGroq sys audioPath prompt language w
          = (Inl ''GROQ_API_KEY not set in environment'', w) \<and>
        replies (trace (handleMessage_gt sys evt w)) = replies (trace w) \<and>
        backend_calls (trace (handleMessage_gt sys evt w)) = backend_calls (trace w) \<and>
        replies (trace (snd (handleMessage_wh sys evt w))) = replies (trace w) \<and>
        backend_calls (trace (snd (handleMessage_wh sys evt w))) = backend_calls (trace w)) \<and>
   (sys_Getenv sys ''CF_ACCOUNT_ID'' = [] \<or> sys_Getenv sys ''CF_API_KEY'' = []
    \<longrightarrow> CfTranscribe sys audioPath model language w
          = (Inl ''please set CF_ACCOUNT_ID and CF_API_KEY environment variables'', w))"
proof -
  have m: "main_wh (sys\<lparr>sys_Getenv := g\<rparr>) w = main_wh sys w"
    "main_gt (sys\<lparr>sys_Getenv := g\<rparr>) w = main_gt sys w"
    by (simp_all add: main_wh_def main_gt_def connect_Getenv setupDirectories_Getenv Let_def
        del: setupDirectories.simps split: option.splits)
  have cf: "CfTranscribe sys audioPath model language w
          = (Inl ''please set CF_ACCOUNT_ID and CF_API_KEY environment variables'', w)"
    if "sys_Getenv sys ''CF_ACCOUNT_ID'' = [] \<or> sys_Getenv sys ''CF_API_KEY'' = []"
    using that by (auto simp: CfTranscribe_def)
  show ?thesis
    using m cf TranscribeAudioGroq_no_key handleMessage_no_key by simp
qed

theorem credentials_read_per_call_witness:
  "main_wh sys_nokey w0 = main_wh sys0 w0 \<and>
   main_gt sys_nokey w0 = main_gt sys0 w0 \<and>
   TranscribeAudioGroq sys_nokey ''messages/a.ogg'' WHISPER_PROMPT ''pt'' w1
     = (Inl ''GROQ_API_KEY not set in environment'', w1) \<and>
   CfTranscribe sys_nokey ''messages/a.ogg'' [] ''pt'' w1
     = (Inl ''please set CF_ACCOUNT_ID and CF_API_KEY environment variables'', w1) \<and>
   backend_calls (trace (handleMessage_gt sys_nokey evt_audio w0)) = [] \<and>
   replies (trace (handleMessage_gt sys_nokey evt_audio w0)) = []"
  using credentials_read_per_call [where sys = sys0 and g = "\<lambda>k. []" and w = w0]
    credentials_read_per_call [where sys = sys_nokey and audioPath = "''messages/a.ogg''"
      and prompt = WHISPER_PROMPT and language = "''pt''" and model = "[]" and w = w1]
    credentials_read_per_call [where sys = sys_nokey and evt = evt_audio and w = w0]
  by (simp add: sys_nokey_def w0_def observers)

subsection \<open>The form of Backend B\<close>

text \<open>
  Claim C9. When the key is set and the audio file can be read,
  \<open>TranscribeAudioGroq\<close> sends one request, whose body is a form with the file under
  the base name of its path, \<open>model\<close> \<open>whisper-large-v3\<close>, \<open>response_format\<close>
  \<open>json\<close>, \<open>temperature\<close> \<open>0.0\<close>, a field \<open>prompt\<close> exactly when the prompt is
  not empty and a field \<open>language\<close> exactly when the language is not empty.
\<close>

theorem groq_form_fields:
  assumes "sys_Getenv sys ''GROQ_API_KEY'' \<noteq> []"
    and "files w audioPath = Some fileData"
  shows "trace (snd (TranscribeAudioGroq sys audioPath prompt language w)) =
           trace w @ [HttpDo (groq_request sys (sys_Getenv sys ''GROQ_API_KEY'')
                        (groq_form audioPath fileData prompt language))] \<and>
         ReqBody (groq_request sys (sys_Getenv sys ''GROQ_API_KEY'')
                    (groq_form audioPath fileData prompt language))
           = Multipart (groq_form audioPath fileData prompt language) \<and>
         FormFile ''file'' (Base audioPath) fileData
           \<in> set (groq_form audioPath fileData prompt language) \<and>
         field_values ''model'' (groq_form audioPath fileData prompt language)
           = [''whisper-large-v3''] \<and>
         field_values ''response_format'' (groq_form audioPath fileData prompt language)
           = [''json''] \<and>
         field_values ''temperature'' (groq_form audioPath fileData prompt language)
           = [''0.0''] \<and>
         field_values ''prompt'' (groq_form audioPath fileData prompt language)
           = (if prompt = [] then [] else [prompt]) \<and>
         field_values ''language'' (groq_form audioPath fileData prompt language)
           = (if language = [] then [] else [language])"
proof -
  have tr: "trace (snd (TranscribeAudioGroq sys audioPath prompt language w)) =
           trace w @ [HttpDo (groq_request sys (sys_Getenv sys ''GROQ_API_KEY'')
                        (groq_form audioPath fileData prompt language))]"
    using assms
    by (simp add: TranscribeAudioGroq_def ReadFile_def Let_def emit_simps split: sum.splits)
  have body: "ReqBody (groq_request sys k form) = Multipart form" for k form
    by (simp add: groq_request_def)
  have fields:
    "FormFile ''file'' (Base audioPath) fileData
       \<in> set (groq_form audioPath fileData prompt language)"
    "field_values ''model'' (groq_form audioPath fileData prompt language)
       = [''whisper-large-v3'']"
    "field_values ''response_format'' (groq_form audioPath fileData prompt language)
       = [''json'']"
    "field_values ''temperature'' (groq_form audioPath fileData prompt language) = [''0.0'']"
    "field_values ''prompt'' (groq_form audioPath fileData prompt language)
       = (if prompt = [] then [] else [prompt])"
    "field_values ''language'' (groq_form audioPath fileData prompt language)
       = (if language = [] then [] else [language])"
    by (simp_all add: groq_form_def field_values_def)
  show ?thesis
    using tr body fields by simp
qed

theorem groq_form_fields_witness:
  "backend_calls (trace (snd (TranscribeAudioGroq sys0 ''messages/a.ogg'' [] ''pt'' w1)))
     = [groq_request sys0 ''gsk'' (groq_form ''messages/a.ogg'' ''OggS'' [] ''pt'')] \<and>
   groq_form ''messages/a.ogg'' ''OggS'' [] ''pt''
     = [FormFile ''file'' ''a.ogg'' ''OggS'', FormField ''model'' ''whisper-large-v3'',
        FormField ''language'' ''pt'', FormField ''response_format'' ''json'',
        FormField ''temperature'' ''0.0''] \<and>
   field_values ''prompt'' (groq_form ''messages/a.ogg'' ''OggS'' [] ''pt'') = [] \<and>
   field_values ''language'' (groq_form ''messages/a.ogg'' ''OggS'' [] ''pt'') = [''pt'']"
proof -
  have f: "groq_form ''messages/a.ogg'' ''OggS'' [] ''pt''
     = [FormFile ''file'' ''a.ogg'' ''OggS'', FormField ''model'' ''whisper-large-v3'',
        FormField ''language'' ''pt'', FormField ''response_format'' ''json'',
        FormField ''temperature'' ''0.0'']"
    by (simp add: groq_form_def Base_def)
  show ?thesis
    using groq_form_fields [where sys = sys0 and w = w1 and audioPath = "''messages/a.ogg''"
        and fileData = "''OggS''" and prompt = "[]" and language = "''pt''"] f
    by (simp add: samples observers)
qed

subsection \<open>The language of Backend A\<close>

text \<open>
  Claim C10. \<open>CFTranscriber.Transcribe\<close> does not depend on the field \<open>Language\<close>
  of the transcriber. When the audio file can be read and the request can be built, it
  sends one request whose payload has, as \<open>language\<close>, the argument of the call, or
  \<open>en\<close> when the argument is empty.
\<close>

theorem cf_language_default:
  "Transcribe sys (cf\<lparr>Language := lang\<rparr>) audioPath language w
     = Transcribe sys cf audioPath language w \<and>
   (files w audioPath = Some data \<and> sys_NewRequest sys ''POST'' (BaseURL cf) = None
    \<longrightarrow> (\<exists>payload.
          trace (snd (Transcribe sys cf audioPath language w))
            = trace w @ [HttpDo (cf_request cf payload)] \<and>
          ReqBody (cf_request cf payload) = Payload payload \<and>
          payload ''language'' = Some (JString (if language = [] then ''en'' else language))))"
proof -
  have ind: "Transcribe sys (cf\<lparr>Language := lang\<rparr>) audioPath language w
     = Transcribe sys cf audioPath language w"
    by (simp add: Transcribe_def encodeAudioFile_def cf_payload_def cf_request_def Let_def
        split: sum.splits option.splits)
  have sent: "trace (snd (Transcribe sys cf audioPath language w))
            = trace w @ [HttpDo (cf_request cf (cf_payload cf (EncodeToString data)
                (if language = [] then ''en'' else language)))]"
    if "files w audioPath = Some data" "sys_NewRequest sys ''POST'' (BaseURL cf) = None"
    using that
    by (simp add: Transcribe_def encodeAudioFile_def ReadFile_def Let_def emit_simps
        split: sum.splits)
  have lang: "cf_payload cf enc l ''language'' = Some (JString l)" for enc l
    by (simp add: cf_payload_def)
  have body: "ReqBody (cf_request cf p) = Payload p" for p
    by (simp add: cf_request_def)
  show ?thesis
    using ind sent lang body by blast
qed

theorem cf_language_default_witness:
  "Language (NewCFTranscriber ''acc'' ''tok'' [] ''pt'') = ''pt'' \<and>
   (\<exists>payload.
      trace (snd (Transcribe sys0 (NewCFTranscriber ''acc'' ''tok'' [] ''pt'')
                    ''messages/a.ogg'' [] w1))
        = [HttpDo (cf_request (NewCFTranscriber ''acc'' ''tok'' [] ''pt'') payload)] \<and>
      payload ''language'' = Some (JString ''en''))"
proof -
  let ?cf = "NewCFTranscriber ''acc'' ''tok'' [] ''pt''"
  have p: "files w1 ''messages/a.ogg'' = Some ''OggS'' \<and>
      sys_NewRequest sys0 ''POST'' (BaseURL ?cf) = None"
    by (simp add: samples)
  have "\<exists>payload.
      trace (snd (Transcribe sys0 ?cf ''messages/a.ogg'' [] w1))
        = trace w1 @ [HttpDo (cf_request ?cf payload)] \<and>
      ReqBody (cf_request ?cf payload) = Payload payload \<and>
      payload ''language'' = Some (JString ''en'')"
    using cf_language_default [where sys = sys0 and cf = ?cf and lang = "[]"
        and audioPath = "''messages/a.ogg''" and language = "[]" and w = w1
        and data = "''OggS''", THEN conjunct2, THEN mp, OF p]
    by simp
  then obtain payload where
    "trace (snd (Transcribe sys0 ?cf ''messages/a.ogg'' [] w1))
        = trace w1 @ [HttpDo (cf_request ?cf payload)]"
    "payload ''language'' = Some (JString ''en'')"
    by auto
  moreover have "trace w1 = []"
    by (simp add: w1_def w0_def)
  moreover have "Language ?cf = ''pt''"
    by (simp add: NewCFTranscriber_def Let_def)
  ultimately show ?thesis
    by auto
qed

end
